theory Spec2Isabelle
  imports Main "HOL-Library.AList" "HOL-Library.Sublist"
begin

section \<open>The agent monitor of mcp-supervisor (src/tools/monitor.js)\<close>

text \<open>
  The class \<open>AgentMonitor\<close> keeps a JavaScript \<open>Map\<close> from session ids to session objects
  and mutates the sessions in place. The embedding passes the monitor's mutable part
  explicitly (\<open>monitor\<close>), keeps the immutable part (manifest, environment) in \<open>config\<close>,
  and takes what the outside world answers during a call (the uuid generated, the clock,
  what \<open>fork\<close> or the Docker runner does) as an argument (\<open>world\<close>). Calls that leave the
  process (fork, send, kill, the Docker runner) are appended to an effect log. Logger calls
  are a sink without influence on the monitor and are left out. Each handler runs to its end
  before the next one starts; handlers interleaved at an \<open>await\<close> are outside the model.
\<close>

subsection \<open>JavaScript values\<close>

datatype json =
    JNull
  | JBool bool
  | JNum int
  | JStr string
  | JArr "json list"
  | JObj "(string \<times> json) list"

text \<open>JavaScript truthiness; an absent property (\<open>undefined\<close>) is \<open>None\<close> and is falsy.\<close>

fun truthy :: "json \<Rightarrow> bool" where
  "truthy JNull = False"
| "truthy (JBool b) = b"
| "truthy (JNum n) = (n \<noteq> 0)"
| "truthy (JStr s) = (s \<noteq> [])"
| "truthy (JArr xs) = True"
| "truthy (JObj kvs) = True"

fun truthy_opt :: "json option \<Rightarrow> bool" where
  "truthy_opt None = False"
| "truthy_opt (Some v) = truthy v"

text \<open>\<open>s.includes(sub)\<close>: \<open>sub\<close> occurs in \<open>s\<close> as a contiguous substring.\<close>

fun str_includes :: "string \<Rightarrow> string \<Rightarrow> bool" where
  "str_includes [] sub = (sub = [])"
| "str_includes (c # cs) sub = (prefix sub (c # cs) \<or> str_includes cs sub)"

text \<open>
  \<open>s.replace('~', r)\<close> with a string pattern replaces only the first occurrence, and
  the replacement string is a template: \<open>$$\<close> stands for \<open>$\<close>, \<open>$&\<close> for the text matched,
  \<open>$`\<close> for the text before the match and \<open>$'\<close> for the text after it. A string pattern
  has no capture groups, so every other \<open>$\<close> stands for itself.
\<close>

fun getSubstitution :: "string \<Rightarrow> string \<Rightarrow> string \<Rightarrow> string \<Rightarrow> string" where
  "getSubstitution matched before after [] = []"
| "getSubstitution matched before after [x] = [x]"
| "getSubstitution matched before after (x # y # r) =
     (if x = CHR ''$'' \<and> y = CHR ''$'' then CHR ''$'' # getSubstitution matched before after r
      else if x = CHR ''$'' \<and> y = CHR ''&'' then matched @ getSubstitution matched before after r
      else if x = CHR ''$'' \<and> y = CHR ''`'' then before @ getSubstitution matched before after r
      else if x = CHR ''$'' \<and> y = CHR 0x27 then after @ getSubstitution matched before after r
      else x # getSubstitution matched before after (y # r))"

text \<open>The search for the first occurrence, with the text passed so far.\<close>

fun replace_from :: "char \<Rightarrow> string \<Rightarrow> string \<Rightarrow> string \<Rightarrow> string" where
  "replace_from c r before [] = before"
| "replace_from c r before (x # xs) =
     (if x = c then before @ getSubstitution [c] before xs r @ xs
      else replace_from c r (before @ [x]) xs)"

definition replace_first :: "char \<Rightarrow> string \<Rightarrow> string \<Rightarrow> string" where
  "replace_first c r s = replace_from c r [] s"

subsection \<open>Agent states\<close>

definition PENDING :: string where "PENDING = ''pending''"
definition STARTING :: string where "STARTING = ''starting''"
definition RUNNING :: string where "RUNNING = ''running''"
definition COMPLETING :: string where "COMPLETING = ''completing''"
definition COMPLETED :: string where "COMPLETED = ''completed''"
definition FAILED :: string where "FAILED = ''failed''"
definition TIMEOUT :: string where "TIMEOUT = ''timeout''"
definition STOPPED :: string where "STOPPED = ''stopped''"

text \<open>The values of the object \<open>AGENT_STATE\<close>.\<close>

definition AGENT_STATE :: "string list" where
  "AGENT_STATE =
     [PENDING, STARTING, RUNNING, COMPLETING, COMPLETED, FAILED, TIMEOUT, STOPPED]"

subsection \<open>Data\<close>

text \<open>An entry of the agent catalogue, as far as the monitor reads it.\<close>

record agentConfig =
  agent_id :: string
  agent_path :: string
  requiresAutonomy :: bool
  dockerImage :: "string option"

text \<open>
  The manifest and the environment read by the constructor. \<open>path_resolve\<close> stands for
  Node's \<open>path.resolve\<close> in the process's working directory, \<open>HOME\<close> for
  \<open>process.env.HOME\<close> as a string (\<open>undefined\<close> when it is not set), \<open>dockerRunner\<close> for
  whether a runner object was passed. \<open>MAX_AGENT_RUNTIME_MS\<close> and \<open>MAX_AGENT_RETRIES\<close>
  are what \<open>parseInt\<close> makes of the two environment variables, \<open>None\<close> for \<open>NaN\<close>.
\<close>

record config =
  allowedDirectories :: "string list"
  blockedPaths :: "string list"
  maxConcurrentAgents :: int
  MAX_AGENT_RUNTIME_MS :: "int option"
  MAX_AGENT_RETRIES :: "int option"
  allowAutonomy :: bool
  dockerEnabled :: bool
  dockerRunner :: bool
  HOME :: string
  path_resolve :: "string \<Rightarrow> string"

text \<open>
  \<open>parseInt(x) || d\<close>: the default replaces \<open>NaN\<close> and 0, which are both falsy. So
  \<open>this.maxRuntime = parseInt(process.env.MAX_AGENT_RUNTIME_MS) || 300000\<close> and
  \<open>this.maxRetries = parseInt(process.env.MAX_AGENT_RETRIES) || 2\<close> are:
\<close>

definition or_default :: "int option \<Rightarrow> int \<Rightarrow> int" where
  "or_default parsed d = (case parsed of None \<Rightarrow> d | Some n \<Rightarrow> if n = 0 then d else n)"

definition maxRuntime :: "config \<Rightarrow> int" where
  "maxRuntime cfg = or_default (MAX_AGENT_RUNTIME_MS cfg) 300000"

definition maxRetries :: "config \<Rightarrow> int" where
  "maxRetries cfg = or_default (MAX_AGENT_RETRIES cfg) 2"

datatype child_process = ChildProcess (pid: "nat option")

text \<open>
  The readings of a session. \<open>cpu\<close> and \<open>memory\<close> are the number 0 at first and later the
  strings that \<open>toFixed(2)\<close> makes; both are kept as strings here.
\<close>

record monitoring =
  cpu :: string
  memory :: string
  runtime :: int
  progress :: "int option"

record session =
  sessionId :: string
  agentId :: string
  agentType :: string
  agentConfig :: agentConfig
  params :: json
  state :: string
  startTime :: int
  retryCount :: int
  process :: "child_process option"
  containerId :: "string option"
  monitoring :: monitoring
  result :: "json option"
  error :: "string option"
  endTime :: "int option"

text \<open>Calls that leave the supervisor process, in the order they are made.\<close>

datatype effect =
    ForkCall string string
  | SendRun child_process json string bool
  | Kill child_process string
  | ForceKillAfter child_process nat
  | DockerRunAgent agentConfig json string
  | DockerStopContainer string

text \<open>The mutable part of the monitor: the map \<open>activeAgents\<close> in insertion order.\<close>

record monitor =
  activeAgents :: "(string \<times> session) list"
  effects :: "effect list"

text \<open>
  The reasons of \<open>validateAgentExecution\<close>:
  \<^item> \<open>AutonomyDisabled\<close> is "Agent requires ALLOW_AUTONOMY=true but it is disabled";
  \<^item> \<open>LimitReached n\<close> is "Maximum concurrent agents limit (n) reached";
  \<^item> \<open>PathNotAllowed p\<close> is "Path 'p' is not in allowed directories".
\<close>

datatype reason = AutonomyDisabled | LimitReached int | PathNotAllowed string

datatype validation = Valid | Invalid reason

text \<open>
  What a call can throw: the \<open>Error\<close> made from a validation reason, the \<open>TypeError\<close> of
  reading a property of \<open>null\<close> or of \<open>path.resolve\<close> on a value that is no string, and
  the error of a backend that did not start.
\<close>

datatype exn = Rejected reason | TypeError | BackendError string

text \<open>What \<open>fork\<close> and the first \<open>send\<close> do, and what the Docker runner's \<open>runAgent\<close> does.\<close>

datatype fork_result =
    ForkThrows string
  | SendThrows child_process string
  | Forked child_process

datatype docker_result = RunAgentThrows string | Container string

record world =
  uuid :: string
  now :: int
  fork_result :: fork_result
  docker_result :: docker_result

subsection \<open>Admission\<close>

definition isPathAllowed :: "config \<Rightarrow> string \<Rightarrow> bool" where
  "isPathAllowed cfg targetPath =
     (let resolved = path_resolve cfg targetPath in
      if list_ex (\<lambda>blocked. str_includes resolved (replace_first CHR ''~'' (HOME cfg) blocked))
           (blockedPaths cfg)
      then False
      else list_ex (\<lambda>allowed. prefix (path_resolve cfg allowed) resolved)
             (allowedDirectories cfg))"

text \<open>Reading \<open>params.k\<close>: a \<open>TypeError\<close> on \<open>null\<close>, \<open>undefined\<close> where there is no such key.\<close>

fun get_prop :: "json \<Rightarrow> string \<Rightarrow> exn + json option" where
  "get_prop JNull k = Inl TypeError"
| "get_prop (JObj kvs) k = Inr (map_of kvs k)"
| "get_prop v k = Inr None"

text \<open>The loop over the paths given; \<open>path.resolve\<close> throws on a value that is no string.\<close>

fun checkPaths :: "config \<Rightarrow> json list \<Rightarrow> exn + validation" where
  "checkPaths cfg [] = Inr Valid"
| "checkPaths cfg (JStr p # ps) =
     (if \<not> isPathAllowed cfg p then Inr (Invalid (PathNotAllowed p)) else checkPaths cfg ps)"
| "checkPaths cfg (v # ps) = Inl TypeError"

text \<open>
  The third check of \<open>validateAgentExecution\<close>:
  \<open>[params.path, params.inputPath, params.outputPath].filter(Boolean)\<close> and the loop.
\<close>

definition validatePaths :: "config \<Rightarrow> json \<Rightarrow> exn + validation" where
  "validatePaths cfg ps =
     (case get_prop ps ''path'' of
        Inl e \<Rightarrow> Inl e
      | Inr p1 \<Rightarrow>
          (case get_prop ps ''inputPath'' of
             Inl e \<Rightarrow> Inl e
           | Inr p2 \<Rightarrow>
               (case get_prop ps ''outputPath'' of
                  Inl e \<Rightarrow> Inl e
                | Inr p3 \<Rightarrow>
                    if truthy_opt p1 \<or> truthy_opt p2 \<or> truthy_opt p3
                    then checkPaths cfg (map the (filter truthy_opt [p1, p2, p3]))
                    else Inr Valid)))"

definition validateAgentExecution ::
  "config \<Rightarrow> monitor \<Rightarrow> agentConfig \<Rightarrow> json \<Rightarrow> exn + validation" where
  "validateAgentExecution cfg m ac ps =
     (if requiresAutonomy ac \<and> \<not> allowAutonomy cfg then Inr (Invalid AutonomyDisabled)
      else if maxConcurrentAgents cfg \<le> int (length (activeAgents m))
      then Inr (Invalid (LimitReached (maxConcurrentAgents cfg)))
      else validatePaths cfg ps)"

subsection \<open>Spawning\<close>

text \<open>The session object literal of \<open>spawnAgent\<close>.\<close>

definition newSession :: "world \<Rightarrow> agentConfig \<Rightarrow> json \<Rightarrow> int \<Rightarrow> session" where
  "newSession w ac ps rc =
     \<lparr> sessionId = uuid w,
       agentId = agent_id ac @ ''-'' @ take 8 (uuid w),
       agentType = agent_id ac,
       agentConfig = ac,
       params = ps,
       state = STARTING,
       startTime = now w,
       retryCount = rc,
       process = None,
       containerId = None,
       monitoring = \<lparr> cpu = ''0'', memory = ''0'', runtime = 0, progress = None \<rparr>,
       result = None,
       error = None,
       endTime = None \<rparr>"

text \<open>
  \<open>spawnForkAgent\<close> and \<open>spawnDockerAgent\<close> on the session object: what is thrown, the
  session as mutated, and the calls made.
\<close>

definition spawnForkAgent ::
  "config \<Rightarrow> world \<Rightarrow> session \<Rightarrow> exn option \<times> session \<times> effect list" where
  "spawnForkAgent cfg w s =
     (let forked = ForkCall (path_resolve cfg (agent_path (agentConfig s))) (sessionId s) in
      case fork_result w of
        ForkThrows msg \<Rightarrow>
          (Some (BackendError msg), s\<lparr>state := FAILED, error := Some msg\<rparr>, [forked])
      | SendThrows child msg \<Rightarrow>
          (Some (BackendError msg),
           s\<lparr>process := Some child, state := FAILED, error := Some msg\<rparr>,
           [forked, SendRun child (params s) (sessionId s) (allowAutonomy cfg)])
      | Forked child \<Rightarrow>
          (None,
           s\<lparr>process := Some child, state := RUNNING\<rparr>,
           [forked, SendRun child (params s) (sessionId s) (allowAutonomy cfg)]))"

definition spawnDockerAgent ::
  "config \<Rightarrow> world \<Rightarrow> session \<Rightarrow> exn option \<times> session \<times> effect list" where
  "spawnDockerAgent cfg w s =
     (let run = DockerRunAgent (agentConfig s) (params s) (sessionId s) in
      case docker_result w of
        RunAgentThrows msg \<Rightarrow>
          (Some (BackendError msg), s\<lparr>state := FAILED, error := Some msg\<rparr>, [run])
      | Container cid \<Rightarrow>
          (None, s\<lparr>containerId := Some cid, state := RUNNING\<rparr>, [run]))"

text \<open>The monitor after \<open>this.activeAgents.set(sessionId, session)\<close>.\<close>

definition registerSession :: "session \<Rightarrow> monitor \<Rightarrow> monitor" where
  "registerSession s m = m\<lparr>activeAgents := AList.update (sessionId s) s (activeAgents m)\<rparr>"

text \<open>
  The backend start of \<open>spawnAgent\<close>. The session object is the one stored in the map,
  so its mutation shows in the map.
\<close>

definition startBackend :: "config \<Rightarrow> world \<Rightarrow> session \<Rightarrow> monitor \<Rightarrow> (exn + session) \<times> monitor" where
  "startBackend cfg w s m =
     (case (if dockerEnabled cfg \<and> dockerRunner cfg
            then spawnDockerAgent cfg w s else spawnForkAgent cfg w s) of
        (thrown, s', effs) \<Rightarrow>
          (case thrown of Some e \<Rightarrow> Inl e | None \<Rightarrow> Inr s',
           m\<lparr>activeAgents := AList.update (sessionId s) s' (activeAgents m),
             effects := effects m @ effs\<rparr>))"

definition spawnAgent ::
  "config \<Rightarrow> world \<Rightarrow> agentConfig \<Rightarrow> json \<Rightarrow> int \<Rightarrow> monitor \<Rightarrow> (exn + session) \<times> monitor" where
  "spawnAgent cfg w ac ps rc m =
     (case validateAgentExecution cfg m ac ps of
        Inl e \<Rightarrow> (Inl e, m)
      | Inr (Invalid r) \<Rightarrow> (Inl (Rejected r), m)
      | Inr Valid \<Rightarrow>
          (let s = newSession w ac ps rc in startBackend cfg w s (registerSession s m)))"

subsection \<open>Messages from the agent\<close>

text \<open>
  An IPC message \<open>{status?, progress?, result?, error?}\<close>; an absent field is \<open>None\<close>.
  \<open>status\<close> and \<open>error\<close> are strings and \<open>progress\<close> is a number on the wire.
\<close>

record message =
  msg_status :: "string option"
  msg_progress :: "int option"
  msg_result :: "json option"
  msg_error :: "string option"

text \<open>Truthiness of an optional string: present and not empty.\<close>

fun truthy_str :: "string option \<Rightarrow> bool" where
  "truthy_str None = False"
| "truthy_str (Some s) = (s \<noteq> [])"

text \<open>The body of \<open>handleAgentMessage\<close> on the session found.\<close>

definition applyMessage :: "message \<Rightarrow> session \<Rightarrow> session" where
  "applyMessage msg s =
     (let s1 = (if truthy_str (msg_status msg) then s\<lparr>state := the (msg_status msg)\<rparr> else s);
          s2 = (if msg_progress msg \<noteq> None
                then s1\<lparr>monitoring := (monitoring s1)\<lparr>progress := msg_progress msg\<rparr>\<rparr>
                else s1);
          s3 = (if truthy_opt (msg_result msg) then s2\<lparr>result := msg_result msg\<rparr> else s2);
          s4 = (if truthy_str (msg_error msg) then s3\<lparr>error := msg_error msg\<rparr> else s3)
      in if msg_status msg = Some ''complete'' then s4\<lparr>state := COMPLETING\<rparr> else s4)"

definition handleAgentMessage :: "string \<Rightarrow> message \<Rightarrow> monitor \<Rightarrow> monitor" where
  "handleAgentMessage sid msg m =
     (case map_of (activeAgents m) sid of
        None \<Rightarrow> m
      | Some s \<Rightarrow> m\<lparr>activeAgents := AList.update sid (applyMessage msg s) (activeAgents m)\<rparr>)"

subsection \<open>Exit of the agent\<close>

text \<open>The end of \<open>handleAgentExit\<close>: \<open>endTime\<close> and the runtime are recorded.\<close>

definition recordEnd :: "int \<Rightarrow> session \<Rightarrow> session" where
  "recordEnd t s =
     s\<lparr>endTime := Some t, monitoring := (monitoring s)\<lparr>runtime := t - startTime s\<rparr>\<rparr>"

text \<open>
  \<open>code\<close> is the exit code, \<open>None\<close> for \<open>null\<close> (the process was ended by a signal). A failed
  retry is caught and logged, so only the monitor it leaves is kept.
\<close>

definition handleAgentExit ::
  "config \<Rightarrow> world \<Rightarrow> string \<Rightarrow> int option \<Rightarrow> string option \<Rightarrow> monitor \<Rightarrow> monitor" where
  "handleAgentExit cfg w sid code signal m =
     (case map_of (activeAgents m) sid of
        None \<Rightarrow> m
      | Some s \<Rightarrow>
          if code = Some 0
          then m\<lparr>activeAgents :=
                 AList.update sid (recordEnd (now w) (s\<lparr>state := COMPLETED\<rparr>)) (activeAgents m)\<rparr>
          else if retryCount s < maxRetries cfg
          then snd (spawnAgent cfg w (agentConfig s) (params s) (retryCount s + 1)
                     (m\<lparr>activeAgents := AList.delete sid (activeAgents m)\<rparr>))
          else m\<lparr>activeAgents :=
                 AList.update sid (recordEnd (now w) (s\<lparr>state := FAILED\<rparr>)) (activeAgents m)\<rparr>)"

text \<open>
  The exit of the backend of a session. When \<open>fork\<close> has returned a child,
  \<open>spawnForkAgent\<close> stores it in \<open>session.process\<close> and registers on it the \<open>exit\<close> listener
  \<open>(code, signal) => this.handleAgentExit(sessionId, code, signal)\<close>; this listener is the
  only caller of \<open>handleAgentExit\<close>. A session without a child has no listener. For a
  container, \<open>spawnDockerAgent\<close> registers nothing, and the Docker runner's
  \<open>monitorContainer\<close> awaits the exit, logs it and drops the container from the runner's
  own table without a call to the monitor: the monitor stays as it is.
\<close>

definition backendExit ::
  "config \<Rightarrow> world \<Rightarrow> session \<Rightarrow> int option \<Rightarrow> string option \<Rightarrow> monitor \<Rightarrow> monitor" where
  "backendExit cfg w s code signal m =
     (case process s of
        Some child \<Rightarrow> handleAgentExit cfg w (sessionId s) code signal m
      | None \<Rightarrow> m)"

subsection \<open>Stopping\<close>

text \<open>The calls that \<open>stopAgent\<close> makes to the backend of a session.\<close>

definition stopCalls :: "config \<Rightarrow> session \<Rightarrow> effect list" where
  "stopCalls cfg s =
     (case process s of
        Some child \<Rightarrow> [Kill child ''SIGTERM'', ForceKillAfter child 5000]
      | None \<Rightarrow>
          if truthy_str (containerId s) \<and> dockerRunner cfg
          then [DockerStopContainer (the (containerId s))]
          else [])"

definition stopAgent :: "config \<Rightarrow> string \<Rightarrow> monitor \<Rightarrow> bool \<times> monitor" where
  "stopAgent cfg sid m =
     (case map_of (activeAgents m) sid of
        None \<Rightarrow> (False, m)
      | Some s \<Rightarrow>
          (True,
           m\<lparr>activeAgents := AList.update sid (s\<lparr>state := STOPPED\<rparr>) (activeAgents m),
             effects := effects m @ stopCalls cfg s\<rparr>))"

subsection \<open>The monitoring loop\<close>

text \<open>
  One pass of \<open>monitorAgents\<close> at clock reading \<open>t\<close>. \<open>pidusage\<close> gives, for a process id,
  the CPU and memory readings as already formatted by \<open>toFixed(2)\<close>, or \<open>None\<close> where the
  call throws (the process has gone).
\<close>

definition truthy_pid :: "child_process option \<Rightarrow> bool" where
  "truthy_pid p = (case p of None \<Rightarrow> False | Some c \<Rightarrow> (case pid c of None \<Rightarrow> False | Some n \<Rightarrow> n \<noteq> 0))"

text \<open>The body of the first loop for one entry of the map.\<close>

definition monitorAgent ::
  "config \<Rightarrow> int \<Rightarrow> (nat \<Rightarrow> (string \<times> string) option) \<Rightarrow> string \<Rightarrow> monitor \<Rightarrow> monitor" where
  "monitorAgent cfg t pidusage sid m =
     (case map_of (activeAgents m) sid of
        None \<Rightarrow> m
      | Some s \<Rightarrow>
          if state s \<noteq> RUNNING then m
          else if t - startTime s > maxRuntime cfg
          then snd (stopAgent cfg sid
                 (m\<lparr>activeAgents := AList.update sid (s\<lparr>state := TIMEOUT\<rparr>) (activeAgents m)\<rparr>))
          else if truthy_pid (process s)
          then (case pidusage (the (pid (the (process s)))) of
                  None \<Rightarrow> m
                | Some (c, mem) \<Rightarrow>
                    m\<lparr>activeAgents := AList.update sid
                        (s\<lparr>monitoring := (monitoring s)\<lparr>cpu := c, memory := mem,
                              runtime := t - startTime s\<rparr>\<rparr>) (activeAgents m)\<rparr>)
          else m)"

fun monitorLoop ::
  "config \<Rightarrow> int \<Rightarrow> (nat \<Rightarrow> (string \<times> string) option) \<Rightarrow> string list \<Rightarrow> monitor \<Rightarrow> monitor" where
  "monitorLoop cfg t pidusage [] m = m"
| "monitorLoop cfg t pidusage (sid # sids) m =
     monitorLoop cfg t pidusage sids (monitorAgent cfg t pidusage sid m)"

text \<open>
  The second loop: an entry is deleted when its state is one of the four listed, its
  \<open>endTime\<close> is set and more than 5 minutes (300000 ms) have passed since.
\<close>

definition expired :: "int \<Rightarrow> session \<Rightarrow> bool" where
  "expired t s =
     (state s \<in> set [COMPLETED, FAILED, STOPPED, TIMEOUT] \<and>
      (case endTime s of None \<Rightarrow> False | Some e \<Rightarrow> e \<noteq> 0 \<and> t - e > 300000))"

fun cleanUp :: "int \<Rightarrow> (string \<times> session) list \<Rightarrow> monitor \<Rightarrow> monitor" where
  "cleanUp t [] m = m"
| "cleanUp t ((sid, s) # entries) m =
     cleanUp t entries
       (if expired t s then m\<lparr>activeAgents := AList.delete sid (activeAgents m)\<rparr> else m)"

definition monitorAgents ::
  "config \<Rightarrow> int \<Rightarrow> (nat \<Rightarrow> (string \<times> string) option) \<Rightarrow> monitor \<Rightarrow> monitor" where
  "monitorAgents cfg t pidusage m =
     (let m' = monitorLoop cfg t pidusage (map fst (activeAgents m)) m
      in cleanUp t (activeAgents m') m')"

subsection \<open>Reachable monitors\<close>

text \<open>
  The monitors the supervisor can be in. It starts with an empty map. A request
  (\<open>POST /run-agent\<close> in index.js) calls \<open>spawnAgent(agentConfig, params)\<close>, so the retry
  count is the default 0; a message is handled; the backend of a session in the map
  exits; a session is stopped; the monitoring loop makes a pass.
\<close>

inductive reachable :: "config \<Rightarrow> monitor \<Rightarrow> bool" for cfg :: config where
  initial: "reachable cfg \<lparr>activeAgents = [], effects = []\<rparr>"
| requested: "reachable cfg m \<Longrightarrow> reachable cfg (snd (spawnAgent cfg w ac ps 0 m))"
| messaged: "reachable cfg m \<Longrightarrow> reachable cfg (handleAgentMessage sid msg m)"
| exited: "reachable cfg m \<Longrightarrow> map_of (activeAgents m) sid = Some s \<Longrightarrow>
     reachable cfg (backendExit cfg w s code signal m)"
| stopped: "reachable cfg m \<Longrightarrow> reachable cfg (snd (stopAgent cfg sid m))"
| monitored: "reachable cfg m \<Longrightarrow> reachable cfg (monitorAgents cfg t pidusage m)"

text \<open>
  What admission has established for a session in the map: the two checks of
  \<open>validateAgentExecution\<close> that do not depend on the map.
\<close>

definition admissible :: "config \<Rightarrow> session \<Rightarrow> bool" where
  "admissible cfg s =
     (\<not> (requiresAutonomy (agentConfig s) \<and> \<not> allowAutonomy cfg) \<and>
      validatePaths cfg (params s) = Inr Valid)"

text \<open>
  The backend of a session follows the configuration: with Docker enabled and a runner
  present no session has a child process, and so none is a retry; otherwise no session
  has a container.
\<close>

definition wired :: "config \<Rightarrow> session \<Rightarrow> bool" where
  "wired cfg s =
     (if dockerEnabled cfg \<and> dockerRunner cfg
      then process s = None \<and> retryCount s = 0
      else containerId s = None)"

text \<open>
  The invariant of the map: keys are distinct (it is a \<open>Map\<close>), every session is stored
  under its own id, was admitted and has the backend of the configuration, and a map
  that is not empty is within the limit of concurrent agents.
\<close>

definition entry_ok :: "config \<Rightarrow> string \<times> session \<Rightarrow> bool" where
  "entry_ok cfg e =
     (sessionId (snd e) = fst e \<and> admissible cfg (snd e) \<and> wired cfg (snd e))"

definition consistent :: "config \<Rightarrow> monitor \<Rightarrow> bool" where
  "consistent cfg m =
     (distinct (map fst (activeAgents m)) \<and>
      list_all (entry_ok cfg) (activeAgents m) \<and>
      (activeAgents m = [] \<or> int (length (activeAgents m)) \<le> maxConcurrentAgents cfg))"

subsection \<open>The specification's notion of a descendant\<close>

text \<open>
  The specification's wording, for comparison with \<open>isPathAllowed\<close>: a path is a
  descendant of a root when it is the root or lies below it, that is, continues the root
  with a separator.
\<close>

definition spec_isDescendant :: "string \<Rightarrow> string \<Rightarrow> bool" where
  "spec_isDescendant root p = (p = root \<or> prefix (root @ ''/'') p)"

subsection \<open>A small installation\<close>

text \<open>
  One agent at a time, fork backend, and the defaults of two retries and five minutes
  of runtime. All paths of the examples are absolute and normalised, and \<open>path.resolve\<close>
  returns such a path as it is.
\<close>

definition demo_config :: config where
  "demo_config =
     \<lparr> allowedDirectories = [''/tmp'', ''/srv/workspace''],
       blockedPaths = [''/etc/passwd'', ''~/.ssh''],
       maxConcurrentAgents = 1,
       MAX_AGENT_RUNTIME_MS = None,
       MAX_AGENT_RETRIES = None,
       allowAutonomy = False,
       dockerEnabled = False,
       dockerRunner = False,
       HOME = ''/root'',
       path_resolve = id \<rparr>"

definition echo_agent :: agentConfig where
  "echo_agent =
     \<lparr> agent_id = ''echo'', agent_path = ''/srv/agents/echo/agent.js'',
       requiresAutonomy = False, dockerImage = None \<rparr>"

definition autonomous_agent :: agentConfig where
  "autonomous_agent =
     \<lparr> agent_id = ''file-processor'', agent_path = ''/srv/agents/file-processor/agent.js'',
       requiresAutonomy = True, dockerImage = None \<rparr>"

definition first_world :: world where
  "first_world =
     \<lparr> uuid = ''aaaaaaaa-0001'', now = 1000,
       fork_result = Forked (ChildProcess (Some 4242)),
       docker_result = Container ''c1'' \<rparr>"

definition second_world :: world where
  "second_world =
     \<lparr> uuid = ''bbbbbbbb-0002'', now = 302000,
       fork_result = Forked (ChildProcess (Some 4243)),
       docker_result = Container ''c2'' \<rparr>"

definition empty_monitor :: monitor where
  "empty_monitor = \<lparr>activeAgents = [], effects = []\<rparr>"

text \<open>The session that \<open>spawnAgent\<close> makes of \<open>echo_agent\<close> in \<open>first_world\<close>, once running.\<close>

definition echo_session :: session where
  "echo_session =
     \<lparr> sessionId = ''aaaaaaaa-0001'',
       agentId = ''echo-aaaaaaaa'',
       agentType = ''echo'',
       agentConfig = echo_agent,
       params = JObj [],
       state = ''running'',
       startTime = 1000,
       retryCount = 0,
       process = Some (ChildProcess (Some 4242)),
       containerId = None,
       monitoring = \<lparr> cpu = ''0'', memory = ''0'', runtime = 0, progress = None \<rparr>,
       result = None,
       error = None,
       endTime = None \<rparr>"

definition echo_monitor :: monitor where
  "echo_monitor =
     \<lparr> activeAgents = [(''aaaaaaaa-0001'', echo_session)],
       effects = [ForkCall ''/srv/agents/echo/agent.js'' ''aaaaaaaa-0001'',
                  SendRun (ChildProcess (Some 4242)) (JObj []) ''aaaaaaaa-0001'' False] \<rparr>"

text \<open>
  The process of \<open>echo_session\<close> exits with code 1 and is retried in \<open>second_world\<close>; the
  retry exits with code 1 and is retried in \<open>third_world\<close>, which is the last attempt.
\<close>

definition third_world :: world where
  "third_world =
     \<lparr> uuid = ''cccccccc-0003'', now = 303000,
       fork_result = Forked (ChildProcess (Some 4244)),
       docker_result = Container ''c3'' \<rparr>"

definition later_world :: world where
  "later_world =
     \<lparr> uuid = ''dddddddd-0004'', now = 304000,
       fork_result = Forked (ChildProcess (Some 4245)),
       docker_result = Container ''c4'' \<rparr>"

definition second_session :: session where
  "second_session =
     (newSession second_world echo_agent (JObj []) 1)
       \<lparr>process := Some (ChildProcess (Some 4243)), state := RUNNING\<rparr>"

definition second_monitor :: monitor where
  "second_monitor =
     \<lparr> activeAgents = [(''bbbbbbbb-0002'', second_session)],
       effects = effects echo_monitor @
         [ForkCall ''/srv/agents/echo/agent.js'' ''bbbbbbbb-0002'',
          SendRun (ChildProcess (Some 4243)) (JObj []) ''bbbbbbbb-0002'' False] \<rparr>"

definition third_session :: session where
  "third_session =
     (newSession third_world echo_agent (JObj []) 2)
       \<lparr>process := Some (ChildProcess (Some 4244)), state := RUNNING\<rparr>"

definition third_monitor :: monitor where
  "third_monitor =
     \<lparr> activeAgents = [(''cccccccc-0003'', third_session)],
       effects = effects second_monitor @
         [ForkCall ''/srv/agents/echo/agent.js'' ''cccccccc-0003'',
          SendRun (ChildProcess (Some 4244)) (JObj []) ''cccccccc-0003'' False] \<rparr>"

text \<open>The same installation with Docker enabled, and the session of a started container.\<close>

definition docker_config :: config where
  "docker_config = demo_config\<lparr>dockerEnabled := True, dockerRunner := True\<rparr>"

definition container_session :: session where
  "container_session =
     (newSession first_world echo_agent (JObj []) 0)
       \<lparr>containerId := Some ''c1'', state := RUNNING\<rparr>"

definition container_monitor :: monitor where
  "container_monitor =
     \<lparr> activeAgents = [(''aaaaaaaa-0001'', container_session)],
       effects = [DockerRunAgent echo_agent (JObj []) ''aaaaaaaa-0001''] \<rparr>"

text \<open>A world in which \<open>fork\<close> throws, and the session that is left.\<close>

definition broken_world :: world where
  "broken_world = first_world\<lparr>fork_result := ForkThrows ''spawn EACCES''\<rparr>"

definition failed_session :: session where
  "failed_session =
     (newSession broken_world echo_agent (JObj []) 0)
       \<lparr>state := FAILED, error := Some ''spawn EACCES''\<rparr>"

definition failed_monitor :: monitor where
  "failed_monitor =
     \<lparr> activeAgents = [(''aaaaaaaa-0001'', failed_session)],
       effects = [ForkCall ''/srv/agents/echo/agent.js'' ''aaaaaaaa-0001''] \<rparr>"

text \<open>A session that completed at time 2000.\<close>

definition finished_monitor :: monitor where
  "finished_monitor =
     \<lparr> activeAgents =
         [(''aaaaaaaa-0001'', echo_session\<lparr>state := ''completed'', endTime := Some 2000\<rparr>)],
       effects = [] \<rparr>"

text \<open>\<open>pidusage\<close> finding no process.\<close>

definition no_usage :: "nat \<Rightarrow> (string \<times> string) option" where
  "no_usage n = None"

definition error_message :: message where
  "error_message =
     \<lparr> msg_status = Some ''error'', msg_progress = None, msg_result = None,
       msg_error = Some ''boom'' \<rparr>"

section \<open>Properties\<close>

lemmas AGENT_STATE_defs =
  PENDING_def STARTING_def RUNNING_def COMPLETING_def COMPLETED_def FAILED_def
  TIMEOUT_def STOPPED_def

subsection \<open>The constructor's defaults\<close>

lemma maxRetries_nonzero: "maxRetries cfg \<noteq> 0"
  by (simp add: maxRetries_def or_default_def split: option.splits)

lemma maxRuntime_nonzero: "maxRuntime cfg \<noteq> 0"
  by (simp add: maxRuntime_def or_default_def split: option.splits)

subsection \<open>The replacement template\<close>

lemma getSubstitution_plain:
  "CHR ''$'' \<notin> set r \<Longrightarrow> getSubstitution matched before after r = r"
  by (induction matched before after r rule: getSubstitution.induct) auto

lemma replace_first_home: "replace_first CHR ''~'' ''/root'' ''~/.ssh'' = ''/root/.ssh''"
  by (simp add: replace_first_def)

lemma replace_first_template:
  "replace_first CHR ''~'' ''/home/$&a$$b'' ''~/.ssh'' = ''/home/~a$b/.ssh''"
  by (simp add: replace_first_def)

subsection \<open>The map of sessions\<close>

lemma map_of_update_same: "map_of (AList.update k v al) k = Some v"
  by (simp add: update_conv')

lemma keys_update_present:
  "map_of al k = Some v \<Longrightarrow> map fst (AList.update k v' al) = map fst al"
  by (induction al) (auto split: if_splits)

lemma length_update_present:
  "map_of al k = Some v' \<Longrightarrow> length (AList.update k v al) = length al"
  by (induction al) (auto split: if_splits)

lemma length_update_le: "length (AList.update k v al) \<le> Suc (length al)"
  by (induction al) auto

lemma length_delete_present:
  "map_of al k = Some v \<Longrightarrow> length (AList.delete k al) < length al"
  by (induction al) (auto simp: less_Suc_eq_le length_delete_le split: if_splits)

lemma entries_all_delete:
  "list_all P al \<Longrightarrow> list_all P (AList.delete k al)"
  by (induction al) auto

lemma entries_all_update:
  "list_all P al \<Longrightarrow> P (k, v) \<Longrightarrow> list_all P (AList.update k v al)"
  by (induction al) auto

lemma entries_all_lookup:
  "list_all P al \<Longrightarrow> map_of al k = Some v \<Longrightarrow> P (k, v)"
  by (induction al) (auto split: if_splits)

subsection \<open>Admission\<close>

lemma validate_Valid_iff:
  "validateAgentExecution cfg m ac ps = Inr Valid \<longleftrightarrow>
     \<not> (requiresAutonomy ac \<and> \<not> allowAutonomy cfg) \<and>
     int (length (activeAgents m)) < maxConcurrentAgents cfg \<and>
     validatePaths cfg ps = Inr Valid"
  by (auto simp: validateAgentExecution_def)

text \<open>The three ways in which \<open>validateAgentExecution\<close> rejects, first failure first.\<close>

lemma validate_Invalid_iff:
  "validateAgentExecution cfg m ac ps = Inr (Invalid r) \<longleftrightarrow>
     (requiresAutonomy ac \<and> \<not> allowAutonomy cfg \<and> r = AutonomyDisabled) \<or>
     (\<not> (requiresAutonomy ac \<and> \<not> allowAutonomy cfg) \<and>
      maxConcurrentAgents cfg \<le> int (length (activeAgents m)) \<and>
      r = LimitReached (maxConcurrentAgents cfg)) \<or>
     (\<not> (requiresAutonomy ac \<and> \<not> allowAutonomy cfg) \<and>
      int (length (activeAgents m)) < maxConcurrentAgents cfg \<and>
      validatePaths cfg ps = Inr (Invalid r))"
  by (auto simp: validateAgentExecution_def)

lemma validate_limit:
  assumes "\<not> (requiresAutonomy ac \<and> \<not> allowAutonomy cfg)"
      and "maxConcurrentAgents cfg \<le> int (length (activeAgents m))"
  shows "validateAgentExecution cfg m ac ps = Inr (Invalid (LimitReached (maxConcurrentAgents cfg)))"
  using assms by (auto simp: validateAgentExecution_def)

lemma spawnAgent_Invalid:
  "validateAgentExecution cfg m ac ps = Inr (Invalid r) \<Longrightarrow>
   spawnAgent cfg w ac ps rc m = (Inl (Rejected r), m)"
  by (simp add: spawnAgent_def)

lemma spawnAgent_throws:
  "validateAgentExecution cfg m ac ps = Inl e \<Longrightarrow> spawnAgent cfg w ac ps rc m = (Inl e, m)"
  by (simp add: spawnAgent_def)

lemma spawnAgent_Valid:
  "validateAgentExecution cfg m ac ps = Inr Valid \<Longrightarrow>
   spawnAgent cfg w ac ps rc m =
     startBackend cfg w (newSession w ac ps rc) (registerSession (newSession w ac ps rc) m)"
  by (simp add: spawnAgent_def Let_def)

text \<open>
  Whatever the backend does, the session stays in the map under its id, with the
  request it was made for; the Docker backend leaves \<open>process\<close> as it was and the fork
  backend leaves \<open>containerId\<close> as it was.
\<close>

lemma startBackend_session:
  "\<exists>s'. map_of (activeAgents (snd (startBackend cfg w s m))) (sessionId s) = Some s' \<and>
        activeAgents (snd (startBackend cfg w s m)) =
          AList.update (sessionId s) s' (activeAgents m) \<and>
        sessionId s' = sessionId s \<and> retryCount s' = retryCount s \<and>
        agentConfig s' = agentConfig s \<and> params s' = params s \<and>
        (if dockerEnabled cfg \<and> dockerRunner cfg then process s' = process s
         else containerId s' = containerId s)"
  by (auto simp: startBackend_def spawnForkAgent_def spawnDockerAgent_def update_conv' Let_def
      split: fork_result.splits docker_result.splits)

text \<open>The session after the backend start: running exactly when nothing was thrown.\<close>

lemma startBackend_outcome:
  "\<exists>s'. map_of (activeAgents (snd (startBackend cfg w s m))) (sessionId s) = Some s' \<and>
        (case fst (startBackend cfg w s m) of
           Inr r \<Rightarrow> r = s' \<and> state s' = RUNNING \<and>
                    (process s' \<noteq> None \<or> containerId s' \<noteq> None)
         | Inl e \<Rightarrow> state s' = FAILED \<and> error s' \<noteq> None)"
  by (auto simp: startBackend_def spawnForkAgent_def spawnDockerAgent_def update_conv' Let_def
      split: fork_result.splits docker_result.splits)

subsection \<open>The invariant\<close>

lemma consistent_initial: "consistent cfg \<lparr>activeAgents = [], effects = []\<rparr>"
  by (simp add: consistent_def)

lemma consistent_entry:
  assumes "consistent cfg m" "map_of (activeAgents m) sid = Some s"
  shows "entry_ok cfg (sid, s)"
proof -
  have "list_all (entry_ok cfg) (activeAgents m)"
    using assms(1) by (simp add: consistent_def)
  then show ?thesis using assms(2) by (rule entries_all_lookup)
qed

text \<open>A new value for a session of the map.\<close>

lemma consistent_updateI:
  assumes "consistent cfg m" "map_of (activeAgents m) sid = Some s"
      and "entry_ok cfg (sid, s')"
      and "activeAgents m' = AList.update sid s' (activeAgents m)"
  shows "consistent cfg m'"
proof -
  have "list_all (entry_ok cfg) (activeAgents m)"
    using assms(1) by (simp add: consistent_def)
  then have "list_all (entry_ok cfg) (activeAgents m')"
    unfolding assms(4) using assms(3) by (rule entries_all_update)
  moreover have "length (activeAgents m') = length (activeAgents m)"
    unfolding assms(4) using assms(2) by (rule length_update_present)
  moreover have "activeAgents m \<noteq> []"
    using assms(2) by auto
  moreover have "distinct (map fst (activeAgents m'))"
    unfolding assms(4) using assms(1) by (simp add: consistent_def distinct_update)
  ultimately show ?thesis
    using assms(1) by (simp add: consistent_def)
qed

text \<open>A change of a session that keeps its id, its request, its backend and its retry count.\<close>

lemma consistent_modifyI:
  assumes "consistent cfg m" "map_of (activeAgents m) sid = Some s"
      and "sessionId s' = sessionId s" "agentConfig s' = agentConfig s" "params s' = params s"
      and "process s' = process s" "containerId s' = containerId s"
      and "retryCount s' = retryCount s"
      and "activeAgents m' = AList.update sid s' (activeAgents m)"
  shows "consistent cfg m'"
proof -
  have "entry_ok cfg (sid, s)"
    using assms(1,2) by (rule consistent_entry)
  then have "entry_ok cfg (sid, s')"
    using assms(3-8) by (simp add: entry_ok_def admissible_def wired_def)
  with assms(1,2) show ?thesis
    using assms(9) by (rule consistent_updateI)
qed

text \<open>A session put into a map that has room for it.\<close>

lemma consistent_insertI:
  assumes "consistent cfg m" "int (length (activeAgents m)) < maxConcurrentAgents cfg"
      and "entry_ok cfg (sid, s')"
      and "activeAgents m' = AList.update sid s' (activeAgents m)"
  shows "consistent cfg m'"
proof -
  have "list_all (entry_ok cfg) (activeAgents m)"
    using assms(1) by (simp add: consistent_def)
  then have "list_all (entry_ok cfg) (activeAgents m')"
    unfolding assms(4) using assms(3) by (rule entries_all_update)
  moreover have "int (length (activeAgents m')) \<le> maxConcurrentAgents cfg"
    unfolding assms(4) using assms(2) length_update_le[of sid s' "activeAgents m"] by simp
  moreover have "distinct (map fst (activeAgents m'))"
    unfolding assms(4) using assms(1) by (simp add: consistent_def distinct_update)
  ultimately show ?thesis
    by (simp add: consistent_def)
qed

lemma consistent_deleteI:
  assumes "consistent cfg m" "activeAgents m' = AList.delete sid (activeAgents m)"
  shows "consistent cfg m'"
proof -
  have "length (activeAgents m') \<le> length (activeAgents m)"
    unfolding assms(2) by (rule length_delete_le)
  moreover have "activeAgents m = [] \<Longrightarrow> activeAgents m' = []"
    unfolding assms(2) by simp
  moreover have "list_all (entry_ok cfg) (activeAgents m')"
    unfolding assms(2) using assms(1) by (simp add: consistent_def entries_all_delete)
  moreover have "distinct (map fst (activeAgents m'))"
    unfolding assms(2) using assms(1) by (simp add: consistent_def distinct_delete)
  ultimately show ?thesis
    using assms(1) by (auto simp: consistent_def)
qed

text \<open>
  \<open>spawnAgent\<close> keeps the invariant when the retry count given is 0 or the backend of
  the configuration is fork.
\<close>

lemma consistent_spawnAgent:
  assumes "consistent cfg m" "rc = 0 \<or> \<not> (dockerEnabled cfg \<and> dockerRunner cfg)"
  shows "consistent cfg (snd (spawnAgent cfg w ac ps rc m))"
proof (cases "validateAgentExecution cfg m ac ps = Inr Valid")
  case False
  then have "snd (spawnAgent cfg w ac ps rc m) = m"
    by (auto simp: spawnAgent_def split: sum.splits validation.splits)
  with assms(1) show ?thesis by simp
next
  case True
  let ?s0 = "newSession w ac ps rc"
  let ?m1 = "registerSession ?s0 m"
  from True have v: "\<not> (requiresAutonomy ac \<and> \<not> allowAutonomy cfg)"
    "int (length (activeAgents m)) < maxConcurrentAgents cfg"
    "validatePaths cfg ps = Inr Valid"
    by (simp_all add: validate_Valid_iff)
  obtain s' where s':
    "activeAgents (snd (startBackend cfg w ?s0 ?m1)) =
       AList.update (sessionId ?s0) s' (activeAgents ?m1)"
    "sessionId s' = sessionId ?s0" "retryCount s' = retryCount ?s0"
    "agentConfig s' = agentConfig ?s0" "params s' = params ?s0"
    "if dockerEnabled cfg \<and> dockerRunner cfg then process s' = process ?s0
     else containerId s' = containerId ?s0"
    using startBackend_session[of cfg w ?s0 ?m1] by blast
  have ok: "entry_ok cfg (sessionId ?s0, s')"
    using v(1,3) s'(2-6) assms(2)
    by (auto simp: entry_ok_def admissible_def wired_def newSession_def)
  have "activeAgents (snd (startBackend cfg w ?s0 ?m1)) =
          AList.update (sessionId ?s0) s' (activeAgents m)"
    unfolding s'(1) by (simp add: registerSession_def)
  with assms(1) v(2) ok have "consistent cfg (snd (startBackend cfg w ?s0 ?m1))"
    by (rule consistent_insertI)
  with True show ?thesis by (simp add: spawnAgent_Valid)
qed

lemma consistent_handleAgentMessage:
  assumes "consistent cfg m"
  shows "consistent cfg (handleAgentMessage sid msg m)"
proof (cases "map_of (activeAgents m) sid")
  case None
  with assms show ?thesis by (simp add: handleAgentMessage_def)
next
  case (Some s)
  have e: "activeAgents (handleAgentMessage sid msg m) =
             AList.update sid (applyMessage msg s) (activeAgents m)"
    using Some by (simp add: handleAgentMessage_def)
  show ?thesis
    by (rule consistent_modifyI[OF assms Some _ _ _ _ _ _ e])
      (simp_all add: applyMessage_def Let_def)
qed

lemma consistent_stopAgent:
  assumes "consistent cfg m"
  shows "consistent cfg (snd (stopAgent cfg sid m))"
proof (cases "map_of (activeAgents m) sid")
  case None
  with assms show ?thesis by (simp add: stopAgent_def)
next
  case (Some s)
  have e: "activeAgents (snd (stopAgent cfg sid m)) =
             AList.update sid (s\<lparr>state := STOPPED\<rparr>) (activeAgents m)"
    using Some by (simp add: stopAgent_def)
  show ?thesis by (rule consistent_modifyI[OF assms Some _ _ _ _ _ _ e]) simp_all
qed

lemma consistent_recordEnd:
  assumes "consistent cfg m" "map_of (activeAgents m) sid = Some s"
  shows "consistent cfg
           (m\<lparr>activeAgents :=
                AList.update sid (recordEnd t (s\<lparr>state := st\<rparr>)) (activeAgents m)\<rparr>)"
  by (rule consistent_modifyI[OF assms]) (simp_all add: recordEnd_def)

text \<open>The three branches of \<open>handleAgentExit\<close> for a session in the map.\<close>

lemma handleAgentExit_zero:
  "map_of (activeAgents m) sid = Some s \<Longrightarrow>
   handleAgentExit cfg w sid (Some 0) signal m =
     m\<lparr>activeAgents :=
         AList.update sid (recordEnd (now w) (s\<lparr>state := COMPLETED\<rparr>)) (activeAgents m)\<rparr>"
  by (simp add: handleAgentExit_def)

lemma handleAgentExit_again:
  "map_of (activeAgents m) sid = Some s \<Longrightarrow> code \<noteq> Some 0 \<Longrightarrow>
   retryCount s < maxRetries cfg \<Longrightarrow>
   handleAgentExit cfg w sid code signal m =
     snd (spawnAgent cfg w (agentConfig s) (params s) (retryCount s + 1)
           (m\<lparr>activeAgents := AList.delete sid (activeAgents m)\<rparr>))"
  by (simp add: handleAgentExit_def)

lemma handleAgentExit_last:
  "map_of (activeAgents m) sid = Some s \<Longrightarrow> code \<noteq> Some 0 \<Longrightarrow>
   \<not> retryCount s < maxRetries cfg \<Longrightarrow>
   handleAgentExit cfg w sid code signal m =
     m\<lparr>activeAgents :=
         AList.update sid (recordEnd (now w) (s\<lparr>state := FAILED\<rparr>)) (activeAgents m)\<rparr>"
  by (simp add: handleAgentExit_def)

text \<open>\<open>handleAgentExit\<close> keeps the invariant where the backend of the configuration is fork.\<close>

lemma consistent_handleAgentExit:
  assumes "consistent cfg m" "\<not> (dockerEnabled cfg \<and> dockerRunner cfg)"
  shows "consistent cfg (handleAgentExit cfg w sid code signal m)"
proof (cases "map_of (activeAgents m) sid")
  case None
  with assms(1) show ?thesis by (simp add: handleAgentExit_def)
next
  case (Some s)
  have d: "consistent cfg (m\<lparr>activeAgents := AList.delete sid (activeAgents m)\<rparr>)"
    by (rule consistent_deleteI[OF assms(1)]) simp
  have fork: "retryCount s + 1 = 0 \<or> \<not> (dockerEnabled cfg \<and> dockerRunner cfg)"
    using assms(2) by simp
  consider "code = Some 0" | "code \<noteq> Some 0" "retryCount s < maxRetries cfg"
    | "code \<noteq> Some 0" "\<not> retryCount s < maxRetries cfg" by blast
  then show ?thesis
  proof cases
    case 1
    show ?thesis
      unfolding 1 handleAgentExit_zero[OF Some]
      by (rule consistent_recordEnd[OF assms(1) Some])
  next
    case 2
    show ?thesis
      unfolding handleAgentExit_again[OF Some 2] by (rule consistent_spawnAgent[OF d fork])
  next
    case 3
    show ?thesis
      unfolding handleAgentExit_last[OF Some 3]
      by (rule consistent_recordEnd[OF assms(1) Some])
  qed
qed

text \<open>
  The exit of a backend is handled exactly for a session with a child process, and such
  a session exists only where the backend of the configuration is fork.
\<close>

lemma backendExit_child:
  "process s = Some child \<Longrightarrow>
   backendExit cfg w s code signal m = handleAgentExit cfg w (sessionId s) code signal m"
  by (simp add: backendExit_def)

lemma backendExit_no_child: "process s = None \<Longrightarrow> backendExit cfg w s code signal m = m"
  by (simp add: backendExit_def)

lemma consistent_backendExit:
  assumes "consistent cfg m" "map_of (activeAgents m) sid = Some s"
  shows "consistent cfg (backendExit cfg w s code signal m)"
proof (cases "process s")
  case None
  with assms(1) show ?thesis by (simp add: backendExit_no_child)
next
  case (Some child)
  have "entry_ok cfg (sid, s)"
    using assms by (rule consistent_entry)
  with Some have "\<not> (dockerEnabled cfg \<and> dockerRunner cfg)"
    by (auto simp: entry_ok_def wired_def)
  with assms(1) show ?thesis
    unfolding backendExit_child[OF Some] by (rule consistent_handleAgentExit)
qed

lemma consistent_monitorAgent:
  assumes "consistent cfg m"
  shows "consistent cfg (monitorAgent cfg t pidusage sid m)"
proof (cases "map_of (activeAgents m) sid")
  case None
  with assms show ?thesis by (simp add: monitorAgent_def)
next
  case known: (Some s)
  have timeout: "consistent cfg
      (m\<lparr>activeAgents := AList.update sid (s\<lparr>state := TIMEOUT\<rparr>) (activeAgents m)\<rparr>)"
    by (rule consistent_modifyI[OF assms known]) simp_all
  have sampled: "consistent cfg
      (m\<lparr>activeAgents := AList.update sid
           (s\<lparr>monitoring := (monitoring s)\<lparr>cpu := c, memory := mem, runtime := r\<rparr>\<rparr>)
           (activeAgents m)\<rparr>)" for c mem r
    by (rule consistent_modifyI[OF assms known]) simp_all
  show ?thesis
  proof (cases "state s \<noteq> RUNNING")
    case True
    with known assms show ?thesis by (simp add: monitorAgent_def)
  next
    case running: False
    show ?thesis
    proof (cases "t - startTime s > maxRuntime cfg")
      case True
      with known running have "monitorAgent cfg t pidusage sid m =
           snd (stopAgent cfg sid
             (m\<lparr>activeAgents :=
                  AList.update sid (s\<lparr>state := TIMEOUT\<rparr>) (activeAgents m)\<rparr>))"
        by (simp add: monitorAgent_def)
      then show ?thesis by (simp only: consistent_stopAgent[OF timeout])
    next
      case in_time: False
      show ?thesis
      proof (cases "truthy_pid (process s)")
        case False
        with known running in_time assms show ?thesis by (simp add: monitorAgent_def)
      next
        case True
        show ?thesis
        proof (cases "pidusage (the (pid (the (process s))))")
          case None
          with known running in_time True assms show ?thesis by (simp add: monitorAgent_def)
        next
          case (Some r)
          obtain c mem where r: "r = (c, mem)" by (cases r)
          have "monitorAgent cfg t pidusage sid m =
            m\<lparr>activeAgents := AList.update sid
                (s\<lparr>monitoring := (monitoring s)\<lparr>cpu := c, memory := mem,
                      runtime := t - startTime s\<rparr>\<rparr>) (activeAgents m)\<rparr>"
            using known running in_time True Some r by (simp add: monitorAgent_def)
          then show ?thesis by (simp only: sampled)
        qed
      qed
    qed
  qed
qed

lemma consistent_monitorLoop:
  "consistent cfg m \<Longrightarrow> consistent cfg (monitorLoop cfg t pidusage sids m)"
proof (induction sids arbitrary: m)
  case Nil
  then show ?case by simp
next
  case (Cons sid sids)
  have "consistent cfg (monitorAgent cfg t pidusage sid m)"
    using Cons.prems by (rule consistent_monitorAgent)
  then have "consistent cfg (monitorLoop cfg t pidusage sids (monitorAgent cfg t pidusage sid m))"
    by (rule Cons.IH)
  then show ?case by simp
qed

lemma consistent_cleanUp:
  "consistent cfg m \<Longrightarrow> consistent cfg (cleanUp t entries m)"
proof (induction entries arbitrary: m)
  case Nil
  then show ?case by simp
next
  case (Cons e entries)
  obtain sid s where e: "e = (sid, s)" by (cases e)
  have d: "consistent cfg (m\<lparr>activeAgents := AList.delete sid (activeAgents m)\<rparr>)"
    by (rule consistent_deleteI[OF Cons.prems]) simp
  show ?case
  proof (cases "expired t s")
    case True
    then show ?thesis using Cons.IH[OF d] by (simp add: e)
  next
    case False
    then show ?thesis using Cons.IH[OF Cons.prems] by (simp add: e)
  qed
qed

lemma consistent_monitorAgents:
  assumes "consistent cfg m"
  shows "consistent cfg (monitorAgents cfg t pidusage m)"
proof -
  have "consistent cfg (monitorLoop cfg t pidusage (map fst (activeAgents m)) m)"
    using assms by (rule consistent_monitorLoop)
  then show ?thesis
    unfolding monitorAgents_def Let_def by (rule consistent_cleanUp)
qed

text \<open>Every reachable monitor satisfies the invariant.\<close>

lemma reachable_consistent: "reachable cfg m \<Longrightarrow> consistent cfg m"
proof (induction rule: reachable.induct)
  case initial
  show ?case by (rule consistent_initial)
next
  case (requested m w ac ps)
  then show ?case by (simp add: consistent_spawnAgent)
next
  case (messaged m sid msg)
  then show ?case by (simp add: consistent_handleAgentMessage)
next
  case (exited m sid s w code signal)
  from exited.IH exited.hyps(2) show ?case by (rule consistent_backendExit)
next
  case (stopped m sid)
  then show ?case by (simp add: consistent_stopAgent)
next
  case (monitored m t pidusage)
  then show ?case by (simp add: consistent_monitorAgents)
qed

text \<open>
  A retry is admitted again: the session passed the first and third check when it was
  admitted, and its own removal makes room under the limit.
\<close>

lemma retry_validates:
  assumes "consistent cfg m" "map_of (activeAgents m) sid = Some s"
  shows "validateAgentExecution cfg (m\<lparr>activeAgents := AList.delete sid (activeAgents m)\<rparr>)
           (agentConfig s) (params s) = Inr Valid"
proof -
  have "entry_ok cfg (sid, s)"
    using assms by (rule consistent_entry)
  then have adm: "admissible cfg s"
    by (simp add: entry_ok_def)
  from assms(2) have "activeAgents m \<noteq> []" by auto
  with assms(1) have "int (length (activeAgents m)) \<le> maxConcurrentAgents cfg"
    by (simp add: consistent_def)
  moreover have "length (AList.delete sid (activeAgents m)) < length (activeAgents m)"
    using assms(2) by (rule length_delete_present)
  ultimately have "int (length (AList.delete sid (activeAgents m))) < maxConcurrentAgents cfg"
    by linarith
  with adm show ?thesis by (simp add: validate_Valid_iff admissible_def)
qed

text \<open>
  The fork backend retries: in a reachable monitor, when the child process of a session
  exits with a code other than 0 while the retry count is below the limit, the session is
  removed and \<open>spawnAgent\<close> creates one under the id generated, with the retry count
  incremented and the same agent configuration and parameters. The old id is gone when
  the id generated differs from it.
\<close>

lemma backendExit_retry:
  assumes "reachable cfg m" "map_of (activeAgents m) sid = Some s" "process s = Some child"
      and "code \<noteq> Some 0" "retryCount s < maxRetries cfg" "uuid w \<noteq> sid"
  shows "backendExit cfg w s code signal m =
           snd (spawnAgent cfg w (agentConfig s) (params s) (retryCount s + 1)
                 (m\<lparr>activeAgents := AList.delete sid (activeAgents m)\<rparr>)) \<and>
         map_of (activeAgents (backendExit cfg w s code signal m)) sid = None \<and>
         (\<exists>s'. map_of (activeAgents (backendExit cfg w s code signal m)) (uuid w) = Some s' \<and>
               sessionId s' = uuid w \<and> retryCount s' = retryCount s + 1 \<and>
               agentConfig s' = agentConfig s \<and> params s' = params s)"
proof -
  let ?m1 = "m\<lparr>activeAgents := AList.delete sid (activeAgents m)\<rparr>"
  let ?s0 = "newSession w (agentConfig s) (params s) (retryCount s + 1)"
  let ?m2 = "snd (startBackend cfg w ?s0 (registerSession ?s0 ?m1))"
  have c: "consistent cfg m"
    using assms(1) by (rule reachable_consistent)
  have "entry_ok cfg (sid, s)"
    using c assms(2) by (rule consistent_entry)
  then have sid: "sessionId s = sid"
    by (simp add: entry_ok_def)
  have v: "validateAgentExecution cfg ?m1 (agentConfig s) (params s) = Inr Valid"
    using c assms(2) by (rule retry_validates)
  have id0: "sessionId ?s0 = uuid w"
    by (simp add: newSession_def)
  have handled: "backendExit cfg w s code signal m = handleAgentExit cfg w sid code signal m"
    using assms(3) by (simp add: backendExit_child sid)
  have again: "backendExit cfg w s code signal m =
          snd (spawnAgent cfg w (agentConfig s) (params s) (retryCount s + 1) ?m1)"
    unfolding handled using assms(2,4,5) by (rule handleAgentExit_again)
  then have eq: "backendExit cfg w s code signal m = ?m2"
    by (simp add: spawnAgent_Valid[OF v])
  obtain s' where s':
    "map_of (activeAgents ?m2) (sessionId ?s0) = Some s'"
    "activeAgents ?m2 = AList.update (sessionId ?s0) s' (activeAgents (registerSession ?s0 ?m1))"
    "sessionId s' = sessionId ?s0" "retryCount s' = retryCount ?s0"
    "agentConfig s' = agentConfig ?s0" "params s' = params ?s0"
    using startBackend_session[of cfg w ?s0 "registerSession ?s0 ?m1"] by blast
  have gone: "map_of (activeAgents (backendExit cfg w s code signal m)) sid = None"
    unfolding eq s'(2) using assms(6)
    by (simp add: id0 update_conv' registerSession_def delete_conv')
  have new: "map_of (activeAgents (backendExit cfg w s code signal m)) (uuid w) = Some s'"
    using s'(1) by (simp add: eq id0)
  have "sessionId s' = uuid w" "retryCount s' = retryCount s + 1"
    "agentConfig s' = agentConfig s" "params s' = params s"
    using s'(3-6) by (simp_all add: newSession_def)
  with again gone new show ?thesis by blast
qed

subsection \<open>The small installation\<close>

lemma echo_spawned:
  "spawnAgent demo_config first_world echo_agent (JObj []) 0 empty_monitor =
     (Inr echo_session, echo_monitor)"
  by (simp add: spawnAgent_def validateAgentExecution_def validatePaths_def startBackend_def
      registerSession_def newSession_def spawnForkAgent_def demo_config_def first_world_def
      echo_agent_def empty_monitor_def echo_session_def echo_monitor_def AGENT_STATE_defs)

lemma echo_reachable: "reachable demo_config echo_monitor"
proof -
  have "reachable demo_config empty_monitor"
    unfolding empty_monitor_def by (rule reachable.initial)
  then have "reachable demo_config
     (snd (spawnAgent demo_config first_world echo_agent (JObj []) 0 empty_monitor))"
    by (rule reachable.requested)
  then show ?thesis by (simp add: echo_spawned)
qed

lemma echo_known: "map_of (activeAgents echo_monitor) ''aaaaaaaa-0001'' = Some echo_session"
  by (simp add: echo_monitor_def)

text \<open>The child of \<open>echo_session\<close> exits with code 1 twice: the second and the third attempt.\<close>

lemma echo_retried:
  "backendExit demo_config second_world echo_session (Some 1) None echo_monitor = second_monitor"
  by (simp add: backendExit_def handleAgentExit_def spawnAgent_def validateAgentExecution_def
      validatePaths_def startBackend_def registerSession_def newSession_def spawnForkAgent_def
      maxRetries_def or_default_def demo_config_def second_world_def echo_agent_def
      echo_session_def echo_monitor_def second_session_def second_monitor_def AGENT_STATE_defs)

lemma second_known:
  "map_of (activeAgents second_monitor) ''bbbbbbbb-0002'' = Some second_session"
  by (simp add: second_monitor_def)

lemma second_retried:
  "backendExit demo_config third_world second_session (Some 1) None second_monitor =
     third_monitor"
  by (simp add: backendExit_def handleAgentExit_def spawnAgent_def validateAgentExecution_def
      validatePaths_def startBackend_def registerSession_def newSession_def spawnForkAgent_def
      maxRetries_def or_default_def demo_config_def second_world_def third_world_def
      echo_agent_def second_session_def second_monitor_def third_session_def third_monitor_def
      AGENT_STATE_defs)

lemma third_known:
  "map_of (activeAgents third_monitor) ''cccccccc-0003'' = Some third_session"
  by (simp add: third_monitor_def)

lemma third_reachable: "reachable demo_config third_monitor"
proof -
  have "reachable demo_config
     (backendExit demo_config second_world echo_session (Some 1) None echo_monitor)"
    using echo_reachable echo_known by (rule reachable.exited)
  then have "reachable demo_config second_monitor"
    by (simp only: echo_retried)
  then have "reachable demo_config
     (backendExit demo_config third_world second_session (Some 1) None second_monitor)"
    using second_known by (rule reachable.exited)
  then show ?thesis by (simp only: second_retried)
qed

text \<open>With Docker enabled the same request starts a container.\<close>

lemma container_spawned:
  "spawnAgent docker_config first_world echo_agent (JObj []) 0 empty_monitor =
     (Inr container_session, container_monitor)"
  by (simp add: spawnAgent_def validateAgentExecution_def validatePaths_def startBackend_def
      registerSession_def newSession_def spawnDockerAgent_def docker_config_def
      demo_config_def first_world_def echo_agent_def empty_monitor_def container_session_def
      container_monitor_def AGENT_STATE_defs)

lemma container_known:
  "map_of (activeAgents container_monitor) ''aaaaaaaa-0001'' = Some container_session"
  by (simp add: container_monitor_def)

lemma failed_spawned:
  "spawnAgent demo_config broken_world echo_agent (JObj []) 0 empty_monitor =
     (Inl (BackendError ''spawn EACCES''), failed_monitor)"
  by (simp add: spawnAgent_def validateAgentExecution_def validatePaths_def startBackend_def
      registerSession_def newSession_def spawnForkAgent_def demo_config_def broken_world_def
      first_world_def echo_agent_def empty_monitor_def failed_session_def failed_monitor_def
      AGENT_STATE_defs)

lemma failed_known:
  "map_of (activeAgents failed_monitor) ''aaaaaaaa-0001'' = Some failed_session"
  by (simp add: failed_monitor_def)
subsection \<open>Messages and the lifecycle state\<close>

text \<open>
  Claim C1 as stated fails: a message whose status is present and is not \<open>complete\<close>
  overwrites the state with the status. Here a running session receives the status
  \<open>error\<close>, which the agents of the repository send, and its state becomes \<open>error\<close>,
  which is none of the values of \<open>AGENT_STATE\<close>.
\<close>

theorem handleAgentMessage_status_counterexample:
  "msg_status error_message = Some ''error'' \<and>
   state echo_session = RUNNING \<and>
   map_of (activeAgents (handleAgentMessage ''aaaaaaaa-0001'' error_message echo_monitor))
     ''aaaaaaaa-0001'' = Some (echo_session\<lparr>state := ''error'', error := Some ''boom''\<rparr>) \<and>
   ''error'' \<notin> set AGENT_STATE"
  by (simp add: handleAgentMessage_def applyMessage_def error_message_def echo_monitor_def
      echo_session_def AGENT_STATE_def AGENT_STATE_defs)

text \<open>
  Claim C1, amended: for a message handled for a session in the map, the status
  \<open>complete\<close> sets the state to \<open>COMPLETING\<close>; a message without a status (absent or
  empty) leaves the state as it is; a status that is the name of a state of
  \<open>AGENT_STATE\<close> (the agents send \<open>running\<close> and \<open>stopped\<close>) sets the state to that state.
\<close>

theorem handleAgentMessage_state:
  assumes "map_of (activeAgents m) sid = Some s"
  shows "\<exists>s'. map_of (activeAgents (handleAgentMessage sid msg m)) sid = Some s' \<and>
           (msg_status msg = Some ''complete'' \<longrightarrow> state s' = COMPLETING) \<and>
           (\<not> truthy_str (msg_status msg) \<longrightarrow> state s' = state s) \<and>
           (\<forall>st. msg_status msg = Some st \<and> st \<in> set AGENT_STATE \<longrightarrow> state s' = st)"
proof -
  let ?s' = "applyMessage msg s"
  have "map_of (activeAgents (handleAgentMessage sid msg m)) sid = Some ?s'"
    using assms by (simp add: handleAgentMessage_def update_conv')
  moreover have "msg_status msg = Some ''complete'' \<longrightarrow> state ?s' = COMPLETING"
    by (simp add: applyMessage_def Let_def)
  moreover have "\<not> truthy_str (msg_status msg) \<longrightarrow> state ?s' = state s"
    by (cases "msg_status msg") (auto simp: applyMessage_def Let_def)
  moreover have "\<forall>st. msg_status msg = Some st \<and> st \<in> set AGENT_STATE \<longrightarrow> state ?s' = st"
    by (auto simp: applyMessage_def Let_def AGENT_STATE_def AGENT_STATE_defs)
  ultimately show ?thesis by blast
qed

theorem handleAgentMessage_state_witness:
  "(\<exists>s'. map_of (activeAgents (handleAgentMessage ''aaaaaaaa-0001''
            \<lparr>msg_status = Some ''complete'', msg_progress = Some 100,
              msg_result = None, msg_error = None\<rparr> echo_monitor))
          ''aaaaaaaa-0001'' = Some s' \<and> state s' = ''completing'') \<and>
   (\<exists>s'. map_of (activeAgents (handleAgentMessage ''aaaaaaaa-0001''
            \<lparr>msg_status = None, msg_progress = Some 50,
              msg_result = None, msg_error = None\<rparr> echo_monitor))
          ''aaaaaaaa-0001'' = Some s' \<and> state s' = ''running'') \<and>
   (\<exists>s'. map_of (activeAgents (handleAgentMessage ''aaaaaaaa-0001''
            \<lparr>msg_status = Some ''stopped'', msg_progress = None,
              msg_result = None, msg_error = None\<rparr> echo_monitor))
          ''aaaaaaaa-0001'' = Some s' \<and> state s' = ''stopped'')"
proof -
  have r: "state echo_session = ''running''"
    by (simp add: echo_session_def)
  have st: "''stopped'' \<in> set AGENT_STATE"
    by (simp add: AGENT_STATE_def AGENT_STATE_defs)
  have c1: "\<exists>s'. map_of (activeAgents (handleAgentMessage ''aaaaaaaa-0001''
            \<lparr>msg_status = Some ''complete'', msg_progress = Some 100,
              msg_result = None, msg_error = None\<rparr> echo_monitor))
          ''aaaaaaaa-0001'' = Some s' \<and> state s' = ''completing''"
    using handleAgentMessage_state[OF echo_known,
        of "\<lparr>msg_status = Some ''complete'', msg_progress = Some 100,
             msg_result = None, msg_error = None\<rparr>"]
    by (auto simp: COMPLETING_def)
  have c2: "\<exists>s'. map_of (activeAgents (handleAgentMessage ''aaaaaaaa-0001''
            \<lparr>msg_status = None, msg_progress = Some 50,
              msg_result = None, msg_error = None\<rparr> echo_monitor))
          ''aaaaaaaa-0001'' = Some s' \<and> state s' = ''running''"
    using handleAgentMessage_state[OF echo_known,
        of "\<lparr>msg_status = None, msg_progress = Some 50,
             msg_result = None, msg_error = None\<rparr>"] r
    by auto
  have c3: "\<exists>s'. map_of (activeAgents (handleAgentMessage ''aaaaaaaa-0001''
            \<lparr>msg_status = Some ''stopped'', msg_progress = None,
              msg_result = None, msg_error = None\<rparr> echo_monitor))
          ''aaaaaaaa-0001'' = Some s' \<and> state s' = ''stopped''"
    using handleAgentMessage_state[OF echo_known,
        of "\<lparr>msg_status = Some ''stopped'', msg_progress = None,
             msg_result = None, msg_error = None\<rparr>"] st
    by auto
  from c1 c2 c3 show ?thesis by (intro conjI)
qed

subsection \<open>Timeout\<close>

text \<open>
  Claim C2 fails on the code: the monitoring pass sets the state of a session over its
  runtime to \<open>TIMEOUT\<close> and calls \<open>stopAgent\<close>, which sets it to \<open>STOPPED\<close> before the pass
  ends. When the process killed then exits without an exit code, \<open>handleAgentExit\<close>
  removes the session and spawns it again with retry count 1.
\<close>

theorem timeout_overwritten_and_retried:
  "monitorAgents demo_config 301001 no_usage echo_monitor =
     \<lparr> activeAgents = [(''aaaaaaaa-0001'', echo_session\<lparr>state := ''stopped''\<rparr>)],
       effects = effects echo_monitor @
         [Kill (ChildProcess (Some 4242)) ''SIGTERM'',
          ForceKillAfter (ChildProcess (Some 4242)) 5000] \<rparr> \<and>
   ''stopped'' = STOPPED \<and> STOPPED \<noteq> TIMEOUT \<and>
   activeAgents (handleAgentExit demo_config second_world ''aaaaaaaa-0001'' None
       (Some ''SIGTERM'') (monitorAgents demo_config 301001 no_usage echo_monitor)) =
     [(''bbbbbbbb-0002'',
       (newSession second_world echo_agent (JObj []) 1)
         \<lparr>process := Some (ChildProcess (Some 4243)), state := RUNNING\<rparr>)]"
proof -
  have tick: "monitorAgents demo_config 301001 no_usage echo_monitor =
     \<lparr> activeAgents = [(''aaaaaaaa-0001'', echo_session\<lparr>state := ''stopped''\<rparr>)],
       effects = effects echo_monitor @
         [Kill (ChildProcess (Some 4242)) ''SIGTERM'',
          ForceKillAfter (ChildProcess (Some 4242)) 5000] \<rparr>"
    by (simp add: monitorAgents_def monitorAgent_def stopAgent_def stopCalls_def expired_def
        maxRuntime_def or_default_def demo_config_def echo_monitor_def echo_session_def
        AGENT_STATE_defs)
  have exit: "activeAgents (handleAgentExit demo_config second_world ''aaaaaaaa-0001'' None
       (Some ''SIGTERM'')
       \<lparr> activeAgents = [(''aaaaaaaa-0001'', echo_session\<lparr>state := ''stopped''\<rparr>)],
         effects = effects echo_monitor @
           [Kill (ChildProcess (Some 4242)) ''SIGTERM'',
            ForceKillAfter (ChildProcess (Some 4242)) 5000] \<rparr>) =
     [(''bbbbbbbb-0002'',
       (newSession second_world echo_agent (JObj []) 1)
         \<lparr>process := Some (ChildProcess (Some 4243)), state := RUNNING\<rparr>)]"
    by (simp add: handleAgentExit_def spawnAgent_def validateAgentExecution_def
        validatePaths_def startBackend_def registerSession_def newSession_def
        spawnForkAgent_def maxRetries_def or_default_def demo_config_def second_world_def
        echo_agent_def echo_session_def AGENT_STATE_defs)
  show ?thesis
    unfolding tick using exit by (simp add: AGENT_STATE_defs)
qed

subsection \<open>Rejected admission\<close>

text \<open>
  Claim C3: when \<open>validateAgentExecution\<close> rejects with a reason (autonomy required but
  disabled, limit of concurrent agents reached, or a path that is not allowed, see
  \<open>validate_Invalid_iff\<close>), \<open>spawnAgent\<close> throws the error of that reason and leaves the
  monitor as it was: no session is inserted into the map and no backend call is made.
\<close>

theorem spawnAgent_rejected:
  assumes "validateAgentExecution cfg m ac ps = Inr (Invalid r)"
  shows "spawnAgent cfg w ac ps rc m = (Inl (Rejected r), m)"
  using assms by (simp add: spawnAgent_def)

theorem spawnAgent_rejected_witness:
  "spawnAgent demo_config first_world autonomous_agent (JObj []) 0 empty_monitor =
     (Inl (Rejected AutonomyDisabled), empty_monitor) \<and>
   spawnAgent demo_config second_world echo_agent (JObj []) 0 echo_monitor =
     (Inl (Rejected (LimitReached 1)), echo_monitor) \<and>
   spawnAgent demo_config first_world echo_agent
       (JObj [(''inputPath'', JStr ''/tmp/in.csv''), (''outputPath'', JStr ''/etc/passwd'')])
       0 empty_monitor =
     (Inl (Rejected (PathNotAllowed ''/etc/passwd'')), empty_monitor)"
proof -
  have a: "validateAgentExecution demo_config empty_monitor autonomous_agent (JObj []) =
             Inr (Invalid AutonomyDisabled)"
    by (simp add: validateAgentExecution_def demo_config_def autonomous_agent_def)
  have b: "validateAgentExecution demo_config echo_monitor echo_agent (JObj []) =
             Inr (Invalid (LimitReached 1))"
    by (simp add: validateAgentExecution_def demo_config_def echo_agent_def echo_monitor_def)
  have c: "validateAgentExecution demo_config empty_monitor echo_agent
             (JObj [(''inputPath'', JStr ''/tmp/in.csv''), (''outputPath'', JStr ''/etc/passwd'')]) =
             Inr (Invalid (PathNotAllowed ''/etc/passwd''))"
    by (simp add: validateAgentExecution_def validatePaths_def isPathAllowed_def
        replace_first_def demo_config_def echo_agent_def empty_monitor_def)
  show ?thesis
    using spawnAgent_rejected[OF a, of first_world 0] spawnAgent_rejected[OF b, of second_world 0]
      spawnAgent_rejected[OF c, of first_world 0]
    by simp
qed

subsection \<open>Allowed paths\<close>

text \<open>
  Claim C5 fails on the code: \<open>isPathAllowed\<close> compares the resolved path with each
  allowed directory by \<open>startsWith\<close> on the strings, so a path whose name merely continues
  the name of an allowed directory is admitted although it is a descendant of none. With
  \<open>/tmp\<close> allowed, \<open>/tmpfoo/secret\<close> passes \<open>validateAgentExecution\<close>.
\<close>

theorem isPathAllowed_admits_sibling:
  "allowedDirectories demo_config = [''/tmp'', ''/srv/workspace''] \<and>
   \<not> spec_isDescendant ''/tmp'' ''/tmpfoo/secret'' \<and>
   \<not> spec_isDescendant ''/srv/workspace'' ''/tmpfoo/secret'' \<and>
   isPathAllowed demo_config ''/tmpfoo/secret'' \<and>
   validateAgentExecution demo_config empty_monitor echo_agent
     (JObj [(''path'', JStr ''/tmpfoo/secret'')]) = Inr Valid"
  by (simp add: validateAgentExecution_def validatePaths_def isPathAllowed_def
      replace_first_def spec_isDescendant_def demo_config_def echo_agent_def
      empty_monitor_def)

subsection \<open>The states of a spawned session\<close>

text \<open>
  Claim C6 as stated fails: no session is ever in state \<open>PENDING\<close>. The session object
  is created in state \<open>STARTING\<close> and is in that state when it is inserted into the map.
\<close>

theorem spawnAgent_pending_counterexample:
  "validateAgentExecution demo_config empty_monitor echo_agent (JObj []) = Inr Valid \<and>
   map_of (activeAgents
       (registerSession (newSession first_world echo_agent (JObj []) 0) empty_monitor))
     ''aaaaaaaa-0001'' = Some (newSession first_world echo_agent (JObj []) 0) \<and>
   state (newSession first_world echo_agent (JObj []) 0) = ''starting'' \<and>
   state (newSession first_world echo_agent (JObj []) 0) \<noteq> PENDING"
  by (simp add: validateAgentExecution_def validatePaths_def registerSession_def
      newSession_def demo_config_def echo_agent_def empty_monitor_def first_world_def
      AGENT_STATE_defs)

text \<open>
  Claim C6, amended: for every admitted \<open>spawnAgent\<close> call the session is created in state
  \<open>STARTING\<close>, inserted into the map in that state, and then the backend is started; the
  session is in state \<open>RUNNING\<close>, with the process or the container id recorded, exactly
  when the start succeeded, and in state \<open>FAILED\<close> with the error recorded when it threw.
\<close>

theorem spawnAgent_admitted:
  assumes "validateAgentExecution cfg m ac ps = Inr Valid"
  shows "state (newSession w ac ps rc) = STARTING \<and>
         map_of (activeAgents (registerSession (newSession w ac ps rc) m)) (uuid w) =
           Some (newSession w ac ps rc) \<and>
         spawnAgent cfg w ac ps rc m =
           startBackend cfg w (newSession w ac ps rc)
             (registerSession (newSession w ac ps rc) m) \<and>
         (\<exists>s'. map_of (activeAgents (snd (spawnAgent cfg w ac ps rc m))) (uuid w) = Some s' \<and>
            (case fst (spawnAgent cfg w ac ps rc m) of
               Inr r \<Rightarrow> r = s' \<and> state s' = RUNNING \<and>
                        (process s' \<noteq> None \<or> containerId s' \<noteq> None)
             | Inl e \<Rightarrow> state s' = FAILED \<and> error s' \<noteq> None))"
proof -
  let ?s0 = "newSession w ac ps rc"
  have id0: "sessionId ?s0 = uuid w"
    by (simp add: newSession_def)
  have "state ?s0 = STARTING"
    by (simp add: newSession_def)
  moreover have "map_of (activeAgents (registerSession ?s0 m)) (uuid w) = Some ?s0"
    by (simp add: registerSession_def id0 update_conv')
  moreover have eq: "spawnAgent cfg w ac ps rc m = startBackend cfg w ?s0 (registerSession ?s0 m)"
    using assms by (rule spawnAgent_Valid)
  moreover have "\<exists>s'. map_of (activeAgents (snd (spawnAgent cfg w ac ps rc m))) (uuid w) = Some s' \<and>
            (case fst (spawnAgent cfg w ac ps rc m) of
               Inr r \<Rightarrow> r = s' \<and> state s' = RUNNING \<and>
                        (process s' \<noteq> None \<or> containerId s' \<noteq> None)
             | Inl e \<Rightarrow> state s' = FAILED \<and> error s' \<noteq> None)"
    unfolding eq using startBackend_outcome[of cfg w ?s0 "registerSession ?s0 m"]
    by (simp only: id0)
  ultimately show ?thesis by blast
qed

theorem spawnAgent_admitted_witness:
  "state (newSession first_world echo_agent (JObj []) 0) = STARTING \<and>
   spawnAgent demo_config first_world echo_agent (JObj []) 0 empty_monitor =
     (Inr echo_session, echo_monitor) \<and>
   state echo_session = RUNNING \<and>
   map_of (activeAgents echo_monitor) ''aaaaaaaa-0001'' = Some echo_session"
proof -
  have v: "validateAgentExecution demo_config empty_monitor echo_agent (JObj []) = Inr Valid"
    by (simp add: validateAgentExecution_def validatePaths_def demo_config_def echo_agent_def
        empty_monitor_def)
  have "state echo_session = RUNNING"
    by (simp add: echo_session_def RUNNING_def)
  with spawnAgent_admitted[OF v, of first_world 0] echo_spawned echo_known
  show ?thesis by simp
qed

subsection \<open>Stopping\<close>

text \<open>
  Claim C7 as stated fails: a second \<open>stopAgent\<close> on a session that is already \<open>STOPPED\<close>
  finds the session in the map, sends the signals again and returns true.
\<close>

theorem stopAgent_second_call_counterexample:
  "map_of (activeAgents (snd (stopAgent demo_config ''aaaaaaaa-0001'' echo_monitor)))
     ''aaaaaaaa-0001'' = Some (echo_session\<lparr>state := STOPPED\<rparr>) \<and>
   fst (stopAgent demo_config ''aaaaaaaa-0001''
         (snd (stopAgent demo_config ''aaaaaaaa-0001'' echo_monitor))) = True \<and>
   effects (snd (stopAgent demo_config ''aaaaaaaa-0001''
         (snd (stopAgent demo_config ''aaaaaaaa-0001'' echo_monitor)))) =
     effects echo_monitor @
       [Kill (ChildProcess (Some 4242)) ''SIGTERM'',
        ForceKillAfter (ChildProcess (Some 4242)) 5000,
        Kill (ChildProcess (Some 4242)) ''SIGTERM'',
        ForceKillAfter (ChildProcess (Some 4242)) 5000]"
  by (simp add: stopAgent_def stopCalls_def echo_monitor_def echo_session_def)

text \<open>
  Claim C7, amended: \<open>stopAgent\<close> returns false exactly when the session is not in the
  map, and then changes nothing. For a session in the map the call returns true, leaves
  the session in state \<open>STOPPED\<close> and makes the stop calls of its backend: \<open>SIGTERM\<close> and
  the force-kill timer of 5 seconds for a session with a child process, \<open>stopContainer\<close>
  for a session without one that has a container id when a Docker runner is present,
  and none otherwise. A second call on the session already \<open>STOPPED\<close> finds it again,
  returns true, leaves the map as the first call left it and makes the same backend
  calls once more.
\<close>

theorem stopAgent_false_iff_unknown:
  "(fst (stopAgent cfg sid m) = False \<longleftrightarrow> map_of (activeAgents m) sid = None) \<and>
   (map_of (activeAgents m) sid = None \<longrightarrow> snd (stopAgent cfg sid m) = m) \<and>
   (\<forall>s. map_of (activeAgents m) sid = Some s \<longrightarrow>
      fst (stopAgent cfg sid m) = True \<and>
      map_of (activeAgents (snd (stopAgent cfg sid m))) sid = Some (s\<lparr>state := STOPPED\<rparr>) \<and>
      effects (snd (stopAgent cfg sid m)) = effects m @ stopCalls cfg s \<and>
      fst (stopAgent cfg sid (snd (stopAgent cfg sid m))) = True \<and>
      activeAgents (snd (stopAgent cfg sid (snd (stopAgent cfg sid m)))) =
        activeAgents (snd (stopAgent cfg sid m)) \<and>
      effects (snd (stopAgent cfg sid (snd (stopAgent cfg sid m)))) =
        effects (snd (stopAgent cfg sid m)) @ stopCalls cfg s) \<and>
   (\<forall>s child. process s = Some child \<longrightarrow>
      stopCalls cfg s = [Kill child ''SIGTERM'', ForceKillAfter child 5000]) \<and>
   (\<forall>s. process s = None \<and> truthy_str (containerId s) \<and> dockerRunner cfg \<longrightarrow>
      stopCalls cfg s = [DockerStopContainer (the (containerId s))]) \<and>
   (\<forall>s. process s = None \<and> \<not> (truthy_str (containerId s) \<and> dockerRunner cfg) \<longrightarrow>
      stopCalls cfg s = [])"
proof -
  have unknown: "fst (stopAgent cfg sid m) = False \<longleftrightarrow> map_of (activeAgents m) sid = None"
    by (simp add: stopAgent_def split: option.splits)
  have same: "map_of (activeAgents m) sid = None \<longrightarrow> snd (stopAgent cfg sid m) = m"
    by (simp add: stopAgent_def)
  have calls: "stopCalls cfg (s\<lparr>state := STOPPED\<rparr>) = stopCalls cfg s" for s
    by (cases "process s") (simp_all add: stopCalls_def)
  have known: "fst (stopAgent cfg sid m) = True \<and>
      map_of (activeAgents (snd (stopAgent cfg sid m))) sid = Some (s\<lparr>state := STOPPED\<rparr>) \<and>
      effects (snd (stopAgent cfg sid m)) = effects m @ stopCalls cfg s \<and>
      fst (stopAgent cfg sid (snd (stopAgent cfg sid m))) = True \<and>
      activeAgents (snd (stopAgent cfg sid (snd (stopAgent cfg sid m)))) =
        activeAgents (snd (stopAgent cfg sid m)) \<and>
      effects (snd (stopAgent cfg sid (snd (stopAgent cfg sid m)))) =
        effects (snd (stopAgent cfg sid m)) @ stopCalls cfg s"
    if "map_of (activeAgents m) sid = Some s" for s
    using that by (simp add: stopAgent_def update_conv' calls)
  have child: "stopCalls cfg s = [Kill child ''SIGTERM'', ForceKillAfter child 5000]"
    if "process s = Some child" for s child
    using that by (simp add: stopCalls_def)
  have container: "stopCalls cfg s = [DockerStopContainer (the (containerId s))]"
    if "process s = None \<and> truthy_str (containerId s) \<and> dockerRunner cfg" for s
    using that by (simp add: stopCalls_def)
  have neither: "stopCalls cfg s = []"
    if "process s = None \<and> \<not> (truthy_str (containerId s) \<and> dockerRunner cfg)" for s
    using that by (auto simp: stopCalls_def)
  from unknown same known child container neither show ?thesis
    by (intro conjI allI impI) blast+
qed

theorem stopAgent_false_iff_unknown_witness:
  "stopAgent demo_config ''ffffffff-0000'' echo_monitor = (False, echo_monitor) \<and>
   fst (stopAgent demo_config ''aaaaaaaa-0001'' echo_monitor) = True \<and>
   map_of (activeAgents (snd (stopAgent demo_config ''aaaaaaaa-0001'' echo_monitor)))
     ''aaaaaaaa-0001'' = Some (echo_session\<lparr>state := STOPPED\<rparr>) \<and>
   effects (snd (stopAgent demo_config ''aaaaaaaa-0001'' echo_monitor)) =
     effects echo_monitor @
       [Kill (ChildProcess (Some 4242)) ''SIGTERM'',
        ForceKillAfter (ChildProcess (Some 4242)) 5000] \<and>
   fst (stopAgent demo_config ''aaaaaaaa-0001''
         (snd (stopAgent demo_config ''aaaaaaaa-0001'' echo_monitor))) = True \<and>
   activeAgents (snd (stopAgent demo_config ''aaaaaaaa-0001''
         (snd (stopAgent demo_config ''aaaaaaaa-0001'' echo_monitor)))) =
     activeAgents (snd (stopAgent demo_config ''aaaaaaaa-0001'' echo_monitor)) \<and>
   effects (snd (stopAgent demo_config ''aaaaaaaa-0001''
         (snd (stopAgent demo_config ''aaaaaaaa-0001'' echo_monitor)))) =
     effects (snd (stopAgent demo_config ''aaaaaaaa-0001'' echo_monitor)) @
       [Kill (ChildProcess (Some 4242)) ''SIGTERM'',
        ForceKillAfter (ChildProcess (Some 4242)) 5000] \<and>
   effects (snd (stopAgent docker_config ''aaaaaaaa-0001'' container_monitor)) =
     effects container_monitor @ [DockerStopContainer ''c1''] \<and>
   effects (snd (stopAgent docker_config ''aaaaaaaa-0001''
         (snd (stopAgent docker_config ''aaaaaaaa-0001'' container_monitor)))) =
     effects (snd (stopAgent docker_config ''aaaaaaaa-0001'' container_monitor)) @
       [DockerStopContainer ''c1''] \<and>
   fst (stopAgent demo_config ''aaaaaaaa-0001''
         (snd (stopAgent demo_config ''aaaaaaaa-0001'' failed_monitor))) = True \<and>
   effects (snd (stopAgent demo_config ''aaaaaaaa-0001''
         (snd (stopAgent demo_config ''aaaaaaaa-0001'' failed_monitor)))) =
     effects failed_monitor"
proof -
  have unknown: "map_of (activeAgents echo_monitor) ''ffffffff-0000'' = None"
    by (simp add: echo_monitor_def)
  have child: "process echo_session = Some (ChildProcess (Some 4242))"
    by (simp add: echo_session_def)
  have container: "process container_session = None \<and>
      truthy_str (containerId container_session) \<and> dockerRunner docker_config"
    "the (containerId container_session) = ''c1''"
    by (simp_all add: container_session_def newSession_def docker_config_def)
  have neither: "process failed_session = None \<and>
      \<not> (truthy_str (containerId failed_session) \<and> dockerRunner demo_config)"
    by (simp add: failed_session_def newSession_def)
  note u = stopAgent_false_iff_unknown[of demo_config "''ffffffff-0000''" echo_monitor]
  note e = stopAgent_false_iff_unknown[of demo_config "''aaaaaaaa-0001''" echo_monitor]
  note c = stopAgent_false_iff_unknown[of docker_config "''aaaaaaaa-0001''" container_monitor]
  note f = stopAgent_false_iff_unknown[of demo_config "''aaaaaaaa-0001''" failed_monitor]
  have p1: "stopAgent demo_config ''ffffffff-0000'' echo_monitor = (False, echo_monitor)"
    using u unknown by (simp add: prod_eq_iff)
  have ce: "stopCalls demo_config echo_session =
      [Kill (ChildProcess (Some 4242)) ''SIGTERM'',
       ForceKillAfter (ChildProcess (Some 4242)) 5000]"
    using e child by blast
  have cc: "stopCalls docker_config container_session = [DockerStopContainer ''c1'']"
    using c container by metis
  have cf: "stopCalls demo_config failed_session = []"
    using f neither by blast
  have p2: "fst (stopAgent demo_config ''aaaaaaaa-0001'' echo_monitor) = True"
    "map_of (activeAgents (snd (stopAgent demo_config ''aaaaaaaa-0001'' echo_monitor)))
       ''aaaaaaaa-0001'' = Some (echo_session\<lparr>state := STOPPED\<rparr>)"
    "effects (snd (stopAgent demo_config ''aaaaaaaa-0001'' echo_monitor)) =
       effects echo_monitor @ stopCalls demo_config echo_session"
    "fst (stopAgent demo_config ''aaaaaaaa-0001''
         (snd (stopAgent demo_config ''aaaaaaaa-0001'' echo_monitor))) = True"
    "activeAgents (snd (stopAgent demo_config ''aaaaaaaa-0001''
         (snd (stopAgent demo_config ''aaaaaaaa-0001'' echo_monitor)))) =
       activeAgents (snd (stopAgent demo_config ''aaaaaaaa-0001'' echo_monitor))"
    "effects (snd (stopAgent demo_config ''aaaaaaaa-0001''
         (snd (stopAgent demo_config ''aaaaaaaa-0001'' echo_monitor)))) =
       effects (snd (stopAgent demo_config ''aaaaaaaa-0001'' echo_monitor)) @
         stopCalls demo_config echo_session"
    using e echo_known by blast+
  have p3: "effects (snd (stopAgent docker_config ''aaaaaaaa-0001'' container_monitor)) =
       effects container_monitor @ stopCalls docker_config container_session"
    "effects (snd (stopAgent docker_config ''aaaaaaaa-0001''
         (snd (stopAgent docker_config ''aaaaaaaa-0001'' container_monitor)))) =
       effects (snd (stopAgent docker_config ''aaaaaaaa-0001'' container_monitor)) @
         stopCalls docker_config container_session"
    using c container_known by blast+
  have p4: "fst (stopAgent demo_config ''aaaaaaaa-0001''
         (snd (stopAgent demo_config ''aaaaaaaa-0001'' failed_monitor))) = True"
    "effects (snd (stopAgent demo_config ''aaaaaaaa-0001'' failed_monitor)) =
       effects failed_monitor @ stopCalls demo_config failed_session"
    "effects (snd (stopAgent demo_config ''aaaaaaaa-0001''
         (snd (stopAgent demo_config ''aaaaaaaa-0001'' failed_monitor)))) =
       effects (snd (stopAgent demo_config ''aaaaaaaa-0001'' failed_monitor)) @
         stopCalls demo_config failed_session"
    using f failed_known by blast+
  show ?thesis
    using p1 p2 p3 p4 by (simp only: ce cc cf append_Nil2 simp_thms)
qed

subsection \<open>Exit of the backend\<close>

text \<open>
  Claim C4 fails on the code for a session that runs in a container. The exit of a
  container is never passed to \<open>handleAgentExit\<close>, so when the container of a session
  with retry count 0 (below the limit 2) exits with code 1, the session stays in the map
  as it is and none is created. The fork backend does retry: the same exit of the child
  of \<open>echo_session\<close> removes it and creates the session of the second attempt.
\<close>

theorem container_exit_not_retried:
  "spawnAgent docker_config first_world echo_agent (JObj []) 0 empty_monitor =
     (Inr container_session, container_monitor) \<and>
   containerId container_session = Some ''c1'' \<and>
   retryCount container_session < maxRetries docker_config \<and>
   backendExit docker_config second_world container_session (Some 1) None container_monitor =
     container_monitor \<and>
   activeAgents container_monitor = [(''aaaaaaaa-0001'', container_session)] \<and>
   backendExit demo_config second_world echo_session (Some 1) None echo_monitor =
     second_monitor \<and>
   activeAgents second_monitor = [(''bbbbbbbb-0002'', second_session)] \<and>
   retryCount second_session = 1"
proof -
  have "process container_session = None"
    by (simp add: container_session_def newSession_def)
  then have "backendExit docker_config second_world container_session (Some 1) None
      container_monitor = container_monitor"
    by (rule backendExit_no_child)
  moreover have "containerId container_session = Some ''c1''"
    "retryCount container_session < maxRetries docker_config"
    by (simp_all add: container_session_def newSession_def maxRetries_def or_default_def
        docker_config_def demo_config_def)
  moreover have "activeAgents container_monitor = [(''aaaaaaaa-0001'', container_session)]"
    by (simp add: container_monitor_def)
  moreover have "activeAgents second_monitor = [(''bbbbbbbb-0002'', second_session)]"
    "retryCount second_session = 1"
    by (simp_all add: second_monitor_def second_session_def newSession_def)
  ultimately show ?thesis
    using container_spawned echo_retried by simp
qed

text \<open>
  Claim C8 fails on the code for a session that runs in a container: when the container
  exits with code 0, nothing is passed to \<open>handleAgentExit\<close>, and the session stays
  \<open>RUNNING\<close> without an end time. The fork backend does complete: the same exit of the
  child of \<open>echo_session\<close> leaves it \<open>COMPLETED\<close> with the end time and the runtime.
\<close>

theorem container_exit_zero_unhandled:
  "spawnAgent docker_config first_world echo_agent (JObj []) 0 empty_monitor =
     (Inr container_session, container_monitor) \<and>
   containerId container_session = Some ''c1'' \<and>
   backendExit docker_config second_world container_session (Some 0) None container_monitor =
     container_monitor \<and>
   map_of (activeAgents container_monitor) ''aaaaaaaa-0001'' = Some container_session \<and>
   state container_session = RUNNING \<and> RUNNING \<noteq> COMPLETED \<and>
   endTime container_session = None \<and>
   backendExit demo_config second_world echo_session (Some 0) None echo_monitor =
     echo_monitor\<lparr>activeAgents :=
       [(''aaaaaaaa-0001'',
         echo_session\<lparr>state := COMPLETED, endTime := Some 302000,
           monitoring := \<lparr>cpu = ''0'', memory = ''0'', runtime = 301000, progress = None\<rparr>\<rparr>)]\<rparr>"
proof -
  have "process container_session = None"
    by (simp add: container_session_def newSession_def)
  then have "backendExit docker_config second_world container_session (Some 0) None
      container_monitor = container_monitor"
    by (rule backendExit_no_child)
  moreover have "containerId container_session = Some ''c1''"
    "state container_session = RUNNING" "RUNNING \<noteq> COMPLETED"
    "endTime container_session = None"
    by (simp_all add: container_session_def newSession_def AGENT_STATE_defs)
  moreover have "backendExit demo_config second_world echo_session (Some 0) None echo_monitor =
     echo_monitor\<lparr>activeAgents :=
       [(''aaaaaaaa-0001'',
         echo_session\<lparr>state := COMPLETED, endTime := Some 302000,
           monitoring := \<lparr>cpu = ''0'', memory = ''0'', runtime = 301000, progress = None\<rparr>\<rparr>)]\<rparr>"
    by (simp add: backendExit_def handleAgentExit_def recordEnd_def echo_monitor_def
        echo_session_def second_world_def)
  ultimately show ?thesis
    using container_spawned container_known by simp
qed

text \<open>
  Claim C9: in a reachable monitor, when the backend of a session of the map exits with
  a code other than 0 while the session's retry count equals the retry limit, the
  session's state becomes \<open>FAILED\<close>, its end time and runtime are recorded, and nothing
  else changes: the map has the same session ids and no backend call is made, so no
  session is created. A session at the limit always has a child process, whose exit is
  handled: the limit is never 0, and a session in a container is never a retry, so that
  its retry count is 0.
\<close>

theorem backendExit_exhausted:
  assumes "reachable cfg m" "map_of (activeAgents m) sid = Some s"
      and "process s \<noteq> None \<or> containerId s \<noteq> None"
      and "code \<noteq> Some 0" "retryCount s = maxRetries cfg"
  shows "backendExit cfg w s code signal m =
           m\<lparr>activeAgents := AList.update sid
               (s\<lparr>state := FAILED, endTime := Some (now w),
                   monitoring := (monitoring s)\<lparr>runtime := now w - startTime s\<rparr>\<rparr>)
               (activeAgents m)\<rparr> \<and>
         map fst (activeAgents (backendExit cfg w s code signal m)) =
           map fst (activeAgents m) \<and>
         effects (backendExit cfg w s code signal m) = effects m"
proof -
  have "consistent cfg m"
    using assms(1) by (rule reachable_consistent)
  then have ok: "entry_ok cfg (sid, s)"
    using assms(2) by (rule consistent_entry)
  then have sid: "sessionId s = sid"
    by (simp add: entry_ok_def)
  have "retryCount s \<noteq> 0"
    using assms(5) maxRetries_nonzero[of cfg] by simp
  with ok have "containerId s = None"
    by (auto simp: entry_ok_def wired_def split: if_splits)
  with assms(3) obtain child where child: "process s = Some child"
    by auto
  have limit: "\<not> retryCount s < maxRetries cfg"
    using assms(5) by simp
  have "backendExit cfg w s code signal m = handleAgentExit cfg w sid code signal m"
    using child by (simp add: backendExit_child sid)
  also have "\<dots> = m\<lparr>activeAgents :=
         AList.update sid (recordEnd (now w) (s\<lparr>state := FAILED\<rparr>)) (activeAgents m)\<rparr>"
    using assms(2,4) limit by (rule handleAgentExit_last)
  finally show ?thesis
    using assms(2) by (simp add: recordEnd_def keys_update_present)
qed

theorem backendExit_exhausted_witness:
  "retryCount third_session = maxRetries demo_config \<and>
   backendExit demo_config later_world third_session (Some 1) None third_monitor =
     third_monitor\<lparr>activeAgents :=
       [(''cccccccc-0003'',
         third_session\<lparr>state := FAILED, endTime := Some 304000,
           monitoring := \<lparr>cpu = ''0'', memory = ''0'', runtime = 1000, progress = None\<rparr>\<rparr>)]\<rparr> \<and>
   effects (backendExit demo_config later_world third_session (Some 1) None third_monitor) =
     effects third_monitor"
proof -
  have backend: "process third_session \<noteq> None \<or> containerId third_session \<noteq> None"
    by (simp add: third_session_def)
  have code: "Some (1::int) \<noteq> Some 0" by simp
  have limit: "retryCount third_session = maxRetries demo_config"
    by (simp add: third_session_def newSession_def maxRetries_def or_default_def
        demo_config_def)
  show ?thesis
    using backendExit_exhausted[OF third_reachable third_known backend code limit,
        of later_world None] limit
    by (simp add: third_monitor_def third_session_def newSession_def later_world_def
        third_world_def)
qed

subsection \<open>The limit of concurrent agents\<close>

text \<open>
  Claim C10: the limit check of \<open>validateAgentExecution\<close> compares the number of all
  entries of the map with the limit, whatever their states. So once the autonomy check
  has passed, a map with at least as many entries as the limit makes every admission
  fail with the limit-reached reason and leaves the monitor unchanged; in particular a
  map whose only sessions are terminal and not yet removed by the cleanup.
\<close>

theorem limit_counts_every_session:
  assumes "\<not> (requiresAutonomy ac \<and> \<not> allowAutonomy cfg)"
      and "maxConcurrentAgents cfg \<le> int (length (activeAgents m))"
  shows "validateAgentExecution cfg m ac ps =
           Inr (Invalid (LimitReached (maxConcurrentAgents cfg))) \<and>
         spawnAgent cfg w ac ps rc m =
           (Inl (Rejected (LimitReached (maxConcurrentAgents cfg))), m)"
proof -
  have "validateAgentExecution cfg m ac ps =
          Inr (Invalid (LimitReached (maxConcurrentAgents cfg)))"
    using assms by (rule validate_limit)
  then show ?thesis by (simp add: spawnAgent_Invalid)
qed

theorem limit_counts_every_session_witness:
  "activeAgents finished_monitor =
     [(''aaaaaaaa-0001'', echo_session\<lparr>state := COMPLETED, endTime := Some 2000\<rparr>)] \<and>
   monitorAgents demo_config 3000 no_usage finished_monitor = finished_monitor \<and>
   int (length (activeAgents finished_monitor)) = maxConcurrentAgents demo_config \<and>
   validateAgentExecution demo_config finished_monitor echo_agent (JObj []) =
     Inr (Invalid (LimitReached 1)) \<and>
   spawnAgent demo_config second_world echo_agent (JObj []) 0 finished_monitor =
     (Inl (Rejected (LimitReached 1)), finished_monitor)"
proof -
  have a: "\<not> (requiresAutonomy echo_agent \<and> \<not> allowAutonomy demo_config)"
    by (simp add: echo_agent_def)
  have n: "int (length (activeAgents finished_monitor)) = maxConcurrentAgents demo_config"
    by (simp add: finished_monitor_def demo_config_def)
  then have l: "maxConcurrentAgents demo_config \<le> int (length (activeAgents finished_monitor))"
    by simp
  have e: "activeAgents finished_monitor =
     [(''aaaaaaaa-0001'', echo_session\<lparr>state := COMPLETED, endTime := Some 2000\<rparr>)]"
    by (simp add: finished_monitor_def COMPLETED_def)
  have t: "monitorAgents demo_config 3000 no_usage finished_monitor = finished_monitor"
    by (simp add: monitorAgents_def monitorAgent_def expired_def finished_monitor_def
        echo_session_def AGENT_STATE_defs)
  have mx: "maxConcurrentAgents demo_config = 1"
    by (simp add: demo_config_def)
  show ?thesis
    using limit_counts_every_session[OF a l, of "JObj []" second_world 0] e t n
    by (simp add: mx)
qed

end
